theory Spec2Isabelle
  imports Complex_Main "HOL-Library.Code_Target_Nat"
begin

section \<open>Text: Python strings as lists of code points\<close>

text \<open>
  A Python \<open>str\<close> is a sequence of Unicode code points, so text is a list of naturals.
  The documents are bilingual (English and Arabic): the character functions below are exact
  on ASCII and on the Arabic block U+0600..U+06FF. On other scripts \<open>py_upper\<close> leaves a
  cased letter unchanged and \<open>is_digit\<close> knows no further decimal digits.
\<close>

type_synonym ustring = "nat list"

definition ustr :: "string \<Rightarrow> ustring" where
  "ustr s = map of_char s"

text \<open>\<open>str.isspace\<close> for one code point, also the class \<open>\s\<close> of \<open>re\<close>.\<close>

definition is_space :: "nat \<Rightarrow> bool" where
  "is_space c \<longleftrightarrow>
     (9 \<le> c \<and> c \<le> 13) \<or> (28 \<le> c \<and> c \<le> 32) \<or> c = 133 \<or> c = 160 \<or> c = 5760 \<or>
     (8192 \<le> c \<and> c \<le> 8202) \<or> c = 8232 \<or> c = 8233 \<or> c = 8239 \<or> c = 8287 \<or> c = 12288"

definition upper_char :: "nat \<Rightarrow> nat" where
  "upper_char c = (if 97 \<le> c \<and> c \<le> 122 then c - 32 else c)"

definition lower_char :: "nat \<Rightarrow> nat" where
  "lower_char c = (if 65 \<le> c \<and> c \<le> 90 then c + 32 else c)"

definition py_upper :: "ustring \<Rightarrow> ustring" where
  "py_upper s = map upper_char s"

definition py_strip :: "ustring \<Rightarrow> ustring" where
  "py_strip s = rev (dropWhile is_space (rev (dropWhile is_space s)))"

text \<open>\<open>s.split()\<close>: the maximal runs of non-space characters, in order.\<close>

primrec py_split_aux :: "ustring \<Rightarrow> ustring \<Rightarrow> ustring list" where
  "py_split_aux [] cur = (if cur = [] then [] else [cur])"
| "py_split_aux (c # cs) cur =
     (if is_space c then (if cur = [] then [] else [cur]) @ py_split_aux cs []
      else py_split_aux cs (cur @ [c]))"

definition py_split :: "ustring \<Rightarrow> ustring list" where
  "py_split s = py_split_aux s []"

section \<open>Confidence model\<close>

text \<open>
  \<open>self.ocr_confidence_data\<close>: a dict from an image key to the parallel lists
  \<open>text\<close> and \<open>conf\<close> of the confidence-annotated OCR pass, in insertion order.
  Confidences are floats in the source; they are modelled as reals, and \<open>round(x, 2)\<close>
  as rounding half to even on the exact value.
\<close>

type_synonym ocr_data = "ustring list \<times> int list"
type_synonym conf_table = "(ustring \<times> ocr_data) list"

definition round_half_even :: "real \<Rightarrow> int" where
  "round_half_even x =
     (let f = \<lfloor>x\<rfloor>; d = x - of_int f
      in if d < 1 / 2 then f else if 1 / 2 < d then f + 1 else if even f then f else f + 1)"

definition round2 :: "real \<Rightarrow> real" where
  "round2 x = of_int (round_half_even (x * 100)) / 100"

text \<open>
  The inner loop of \<open>_calculate_dynamic_confidence\<close> over one table entry:
  \<open>for i, text in enumerate(ocr_data['text'])\<close>. A missing \<open>conf[i]\<close> raises IndexError,
  which the source catches and skips.
\<close>

definition entry_confidences :: "ustring list \<Rightarrow> ocr_data \<Rightarrow> int list" where
  "entry_confidences value_words d =
     concat (map (\<lambda>(i, text).
        if text \<noteq> [] \<and> py_upper (py_strip text) \<in> set value_words
        then (if i < length (snd d) then (if 0 < snd d ! i then [snd d ! i] else []) else [])
        else [])
      (enumerate 0 (fst d)))"

definition calculate_dynamic_confidence :: "conf_table \<Rightarrow> ustring \<Rightarrow> real \<Rightarrow> real" where
  "calculate_dynamic_confidence tbl extracted_value base_confidence =
     (if extracted_value = [] \<or> tbl = [] then base_confidence * 0.5
      else
        let value_words = py_split (py_upper extracted_value);
            ocr_confidences = concat (map (\<lambda>(source_key, d). entry_confidences value_words d) tbl)
        in if ocr_confidences \<noteq> []
           then
             let avg_ocr_conf = (of_int (sum_list ocr_confidences) / of_nat (length ocr_confidences)) / 100;
                 dynamic_conf = avg_ocr_conf * 0.6 + base_confidence * 0.4
             in min 1 (round2 dynamic_conf)
           else base_confidence)"

text \<open>
  The condition of the specification: no OCR token of the table equals, after stripping and
  upper-casing, a whitespace-delimited token of the upper-cased value.
\<close>

definition no_matching_token :: "conf_table \<Rightarrow> ustring \<Rightarrow> bool" where
  "no_matching_token tbl v \<longleftrightarrow>
     (\<forall>e \<in> set tbl. \<forall>t \<in> set (fst (snd e)). py_upper (py_strip t) \<notin> set (py_split (py_upper v)))"

section \<open>Regular expressions: the fragment of Python's \<open>re\<close> that the catalog uses\<close>

text \<open>
  \<open>re\<close> is a backtracking matcher: alternatives are tried left to right, a greedy
  repetition tries the longest run first, and the first success wins. \<open>ms r ic st\<close> lists
  every way \<open>r\<close> can match at the front of the input of \<open>st\<close>, in that order of
  preference; the head of the list is the match Python reports. A state is the input still
  to be read and the groups captured so far; \<open>ic\<close> is \<open>re.IGNORECASE\<close>.
  (\<open>re.DOTALL\<close> changes only \<open>.\<close>, which no pattern of the catalog uses.)
\<close>

definition is_digit :: "nat \<Rightarrow> bool" where
  "is_digit c \<longleftrightarrow> (48 \<le> c \<and> c \<le> 57) \<or> (1632 \<le> c \<and> c \<le> 1641) \<or> (1776 \<le> c \<and> c \<le> 1785)"

datatype cls_item = Ch nat | Rng nat nat | WS | DIG

datatype re =
    Str ustring
  | Set "cls_item list"
  | Seq re re
  | Alt re re
  | Rep nat "nat option" re
  | Grp nat re
  | Eol

type_synonym captures = "nat \<Rightarrow> ustring option"
type_synonym mstate = "ustring \<times> captures"

fun item_has :: "cls_item \<Rightarrow> nat \<Rightarrow> bool" where
  "item_has (Ch a) c = (c = a)"
| "item_has (Rng a b) c = (a \<le> c \<and> c \<le> b)"
| "item_has WS c = is_space c"
| "item_has DIG c = is_digit c"

definition set_match :: "bool \<Rightarrow> cls_item list \<Rightarrow> nat \<Rightarrow> bool" where
  "set_match ic items c \<longleftrightarrow>
     list_ex (\<lambda>i. item_has i c) items \<or>
     ic \<and> list_ex (\<lambda>i. item_has i (lower_char c) \<or> item_has i (upper_char c)) items"

definition lit_eq :: "bool \<Rightarrow> nat \<Rightarrow> nat \<Rightarrow> bool" where
  "lit_eq ic a c \<longleftrightarrow> a = c \<or> ic \<and> lower_char a = lower_char c"

fun str_prefix :: "bool \<Rightarrow> ustring \<Rightarrow> ustring \<Rightarrow> ustring option" where
  "str_prefix ic [] s = Some s"
| "str_prefix ic (a # w) [] = None"
| "str_prefix ic (a # w) (c # s) = (if lit_eq ic a c then str_prefix ic w s else None)"

text \<open>
  Greedy repetition \<open>{lo,hi}\<close> of a matcher \<open>f\<close>, with \<open>n\<close> iterations still allowed:
  one more iteration is preferred to stopping.
\<close>

fun rep :: "(mstate \<Rightarrow> mstate list) \<Rightarrow> nat \<Rightarrow> nat \<Rightarrow> mstate \<Rightarrow> mstate list" where
  "rep f lo 0 st = (if lo = 0 then [st] else [])"
| "rep f lo (Suc n) st =
     concat (map (rep f (lo - 1) n) (f st)) @ (if lo = 0 then [st] else [])"

text \<open>
  An unbounded repetition (\<open>*\<close>, \<open>+\<close>, \<open>{lo,}\<close>) is bounded by the length of the input:
  every repeated expression of the catalog consumes at least one character.
  \<open>Eol\<close> is \<open>$\<close>: the end of the string, or just before a newline that ends it.
\<close>

primrec ms :: "re \<Rightarrow> bool \<Rightarrow> mstate \<Rightarrow> mstate list" where
  "ms (Str w) ic st =
     (case str_prefix ic w (fst st) of None \<Rightarrow> [] | Some s \<Rightarrow> [(s, snd st)])"
| "ms (Set items) ic st =
     (case fst st of [] \<Rightarrow> [] | c # s \<Rightarrow> if set_match ic items c then [(s, snd st)] else [])"
| "ms (Seq a b) ic st = concat (map (ms b ic) (ms a ic st))"
| "ms (Alt a b) ic st = ms a ic st @ ms b ic st"
| "ms (Rep lo hi r) ic st =
     rep (ms r ic) lo (case hi of None \<Rightarrow> length (fst st) | Some h \<Rightarrow> h) st"
| "ms (Grp k r) ic st =
     map (\<lambda>st'. (fst st', (snd st')(k \<mapsto> take (length (fst st) - length (fst st')) (fst st))))
       (ms r ic st)"
| "ms Eol ic st = (if fst st = [] \<or> fst st = [10] then [st] else [])"

primrec num_groups :: "re \<Rightarrow> nat" where
  "num_groups (Str w) = 0"
| "num_groups (Set items) = 0"
| "num_groups (Seq a b) = num_groups a + num_groups b"
| "num_groups (Alt a b) = num_groups a + num_groups b"
| "num_groups (Rep lo hi r) = num_groups r"
| "num_groups (Grp k r) = 1 + num_groups r"
| "num_groups Eol = 0"

text \<open>A match object: \<open>group(0)\<close> and the numbered groups (\<open>None\<close> for a group that took no part).\<close>

type_synonym rmatch = "ustring \<times> captures"

definition match_here :: "re \<Rightarrow> bool \<Rightarrow> ustring \<Rightarrow> rmatch option" where
  "match_here r ic s =
     (case ms r ic (s, Map.empty) of
        [] \<Rightarrow> None
      | st # _ \<Rightarrow> Some (take (length s - length (fst st)) s, snd st))"

text \<open>\<open>re.match\<close>: a match at the start of the string (where \<open>^\<close> holds, so it is not modelled).\<close>

definition re_match :: "re \<Rightarrow> bool \<Rightarrow> ustring \<Rightarrow> rmatch option" where
  "re_match r ic s = match_here r ic s"

text \<open>
  \<open>re.finditer\<close>: the leftmost matches, not overlapping, scanning left to right. After a
  match of length \<open>n\<close> the scan resumes \<open>n\<close> characters on, counted down in \<open>skip\<close>.
  No pattern of the catalog matches the empty string.
\<close>

fun finditer_from :: "re \<Rightarrow> bool \<Rightarrow> ustring \<Rightarrow> nat \<Rightarrow> rmatch list" where
  "finditer_from r ic [] skip = []"
| "finditer_from r ic (c # s) skip =
     (if 0 < skip then finditer_from r ic s (skip - 1)
      else case match_here r ic (c # s) of
             None \<Rightarrow> finditer_from r ic s 0
           | Some m \<Rightarrow> m # finditer_from r ic s (length (fst m) - 1))"

definition re_finditer :: "re \<Rightarrow> bool \<Rightarrow> ustring \<Rightarrow> rmatch list" where
  "re_finditer r ic s = finditer_from r ic s 0"

definition re_search :: "re \<Rightarrow> bool \<Rightarrow> ustring \<Rightarrow> rmatch option" where
  "re_search r ic s = (case re_finditer r ic s of [] \<Rightarrow> None | m # _ \<Rightarrow> Some m)"

text \<open>
  \<open>re.findall\<close> returns the whole match for a pattern without groups, the group for a
  pattern with one group, and the tuple of groups otherwise; a group that took no part
  is the empty string.
\<close>

datatype found = One ustring | Tuple "ustring list"

definition group_or_empty :: "rmatch \<Rightarrow> nat \<Rightarrow> ustring" where
  "group_or_empty m k = (case snd m k of None \<Rightarrow> [] | Some g \<Rightarrow> g)"

definition re_findall :: "re \<Rightarrow> bool \<Rightarrow> ustring \<Rightarrow> found list" where
  "re_findall r ic s =
     map (\<lambda>m. if num_groups r = 0 then One (fst m)
              else if num_groups r = 1 then One (group_or_empty m 1)
              else Tuple (map (group_or_empty m) [1 ..< Suc (num_groups r)]))
       (re_finditer r ic s)"

text \<open>\<open>re.sub(r, repl, s)\<close> with a constant replacement.\<close>

fun sub_from :: "re \<Rightarrow> ustring \<Rightarrow> ustring \<Rightarrow> nat \<Rightarrow> ustring" where
  "sub_from r repl [] skip = []"
| "sub_from r repl (c # s) skip =
     (if 0 < skip then sub_from r repl s (skip - 1)
      else case match_here r False (c # s) of
             None \<Rightarrow> c # sub_from r repl s 0
           | Some m \<Rightarrow>
               if fst m = [] then repl @ c # sub_from r repl s 0
               else repl @ sub_from r repl s (length (fst m) - 1))"

definition re_sub :: "re \<Rightarrow> ustring \<Rightarrow> ustring \<Rightarrow> ustring" where
  "re_sub r repl s = sub_from r repl s 0"

text \<open>Notation of the patterns: \<open>\s*\<close>, \<open>\s+\<close>, \<open>x?\<close>, a sequence, a literal.\<close>

definition seqs :: "re list \<Rightarrow> re" where
  "seqs rs = foldr Seq rs (Str [])"

definition lit :: "string \<Rightarrow> re" where
  "lit s = Str (ustr s)"

definition ws_star :: re where
  "ws_star = Rep 0 None (Set [WS])"

definition ws_plus :: re where
  "ws_plus = Rep 1 None (Set [WS])"

definition opt :: "re \<Rightarrow> re" where
  "opt r = Rep 0 (Some 1) r"

definition digit :: re where
  "digit = Set [DIG]"

definition d09 :: re where
  "d09 = Set [Rng 48 57]"

definition AZ :: re where
  "AZ = Set [Rng 65 90]"

definition AZ09 :: re where
  "AZ09 = Set [Rng 65 90, Rng 48 57]"

definition times :: "nat \<Rightarrow> nat \<Rightarrow> re \<Rightarrow> re" where
  "times lo hi r = Rep lo (Some hi) r"

section \<open>Pattern catalog (\<open>PassportPatterns\<close>)\<close>

text \<open>The Arabic words of the patterns and labels, as code points.\<close>

definition ar_passport :: ustring where
  "ar_passport = [0x62C, 0x648, 0x627, 0x632]"

definition ar_number :: ustring where
  "ar_number = [0x631, 0x642, 0x645]"

definition ar_the_passport :: ustring where
  "ar_the_passport = [0x627, 0x644, 0x62C, 0x648, 0x627, 0x632]"

definition ar_the_number :: ustring where
  "ar_the_number = [0x627, 0x644, 0x631, 0x642, 0x645]"

definition ar_the_national :: ustring where
  "ar_the_national = [0x627, 0x644, 0x648, 0x637, 0x646, 0x64A]"

definition ar_the_name :: ustring where
  "ar_the_name = [0x627, 0x644, 0x627, 0x633, 0x645]"

definition ar_the_full :: ustring where
  "ar_the_full = [0x627, 0x644, 0x643, 0x627, 0x645, 0x644]"

definition ar_the_sex :: ustring where
  "ar_the_sex = [0x627, 0x644, 0x62C, 0x646, 0x633]"

definition ar_male :: ustring where
  "ar_male = [0x630, 0x643, 0x631]"

definition ar_female :: ustring where
  "ar_female = [0x623, 0x646, 0x62B, 0x649]"

definition ar_place_of_birth :: ustring where
  "ar_place_of_birth = [0x645, 0x643, 0x627, 0x646, 32, 0x627, 0x644, 0x645, 0x64A, 0x644, 0x627, 0x62F]"

definition ar_place_of_issue :: ustring where
  "ar_place_of_issue = [0x645, 0x643, 0x627, 0x646, 32, 0x627, 0x644, 0x625, 0x635, 0x62F, 0x627, 0x631]"

definition ar_authority_of_issue :: ustring where
  "ar_authority_of_issue = [0x62C, 0x647, 0x629, 32, 0x627, 0x644, 0x625, 0x635, 0x62F, 0x627, 0x631]"

text \<open>
  \<open>self.passport_number\<close>, in the order of the source. Its first pattern
  \<open>P\s*[0-9]{8,9}\<close> and its eleventh \<open>P\s*[0-9]{8}\s*[0-9]?\<close> have names of their own.
\<close>

definition pattern_P_digits :: re where
  "pattern_P_digits = seqs [lit ''P'', ws_star, times 8 9 d09]"

definition pattern_P_digits_spaced :: re where
  "pattern_P_digits_spaced = seqs [lit ''P'', ws_star, times 8 8 d09, ws_star, opt d09]"

definition passport_number_patterns :: "re list" where
  "passport_number_patterns =
    [ pattern_P_digits,
      seqs [lit ''P'', times 8 9 d09],
      seqs [lit ''Passport'', ws_star, lit ''No'', opt (lit ''.''), ws_star, opt (lit '':''), ws_star,
            Grp 1 (times 8 10 AZ09)],
      seqs [lit ''No'', opt (lit ''.''), ws_star, opt (lit '':''), ws_star, Grp 1 (times 8 10 AZ09)],
      Grp 1 (seqs [times 1 2 AZ, ws_star, times 6 9 d09]),
      seqs [lit ''P'', ws_star, lit ''O'', ws_star, times 7 9 d09],
      seqs [Set [Ch 80, Ch 68], times 8 9 (Set [Rng 48 57, Ch 79])],
      seqs [Str ar_passport, ws_star, Str ar_number, ws_star, opt (lit '':''), ws_star,
            Grp 1 (times 8 10 AZ09)],
      seqs [lit ''B'', times 8 8 d09],
      seqs [AZ, times 8 8 d09],
      pattern_P_digits_spaced,
      seqs [Set [Ch 80, Ch 112], times 8 9 d09],
      seqs [Alt (Str ar_number) (seqs [lit ''No'', opt (lit ''.'')]), ws_star, opt (lit '':''), ws_star,
            Grp 1 (times 8 10 AZ09)],
      seqs [Alt (seqs [lit ''Passport'', ws_star, lit ''No'', opt (lit ''.'')])
                (seqs [Str ar_number, ws_star, Str ar_the_passport]),
            ws_star, opt (lit '':''), ws_star, Grp 1 (seqs [AZ, times 8 8 d09])] ]"

text \<open>\<open>self.national_id\<close>.\<close>

definition dash_or_space :: re where
  "dash_or_space = Set [Ch 45, WS]"

definition national_id_patterns :: "re list" where
  "national_id_patterns =
    [ seqs [times 3 3 digit, opt dash_or_space, times 4 4 digit, opt dash_or_space, times 4 5 digit],
      seqs [times 3 3 digit, ws_star, opt dash_or_space, ws_star, times 4 4 digit,
            ws_star, opt dash_or_space, ws_star, times 4 5 digit],
      seqs [lit ''National'', ws_star, lit ''No'', opt (lit ''.''), ws_star, opt (lit '':''), ws_star,
            Grp 1 (seqs [times 3 3 digit, opt dash_or_space, times 4 4 digit, opt dash_or_space,
                         times 4 5 digit])],
      times 11 12 digit,
      seqs [times 3 3 digit, times 4 4 digit, times 4 5 digit],
      seqs [times 3 3 d09, Set [WS, Ch 45, Ch 46], times 4 4 d09, Set [WS, Ch 45, Ch 46],
            times 4 5 d09],
      seqs [Str ar_the_number, ws_star, Str ar_the_national, ws_star, opt (lit '':''), ws_star,
            Grp 1 (seqs [times 3 3 digit, opt dash_or_space, times 4 4 digit, opt dash_or_space,
                         times 4 5 digit])],
      Grp 1 (seqs [times 3 3 digit, Set [Ch 45], times 4 4 digit, Set [Ch 45], times 4 4 digit]),
      Grp 1 (seqs [times 3 3 digit, times 4 4 digit, times 4 4 digit]),
      seqs [Alt (seqs [lit ''National'', ws_star, lit ''No'', opt (lit ''.'')])
                (seqs [Str ar_the_number, ws_star, Str ar_the_national]),
            ws_star, opt (lit '':''), ws_star,
            Grp 1 (seqs [times 3 3 digit, opt (Set [Ch 45]), times 4 4 digit, opt (Set [Ch 45]),
                         times 4 4 digit])] ]"

text \<open>\<open>self.date\<close>: the one pattern \<open>(\d{1,2})\.(\d{1,2})\.(\d{4})\<close>.\<close>

definition date_patterns :: "re list" where
  "date_patterns =
    [ seqs [Grp 1 (times 1 2 digit), lit ''.'', Grp 2 (times 1 2 digit), lit ''.'',
            Grp 3 (times 4 4 digit)] ]"

text \<open>\<open>self.name\<close>.\<close>

definition AZ_space :: re where
  "AZ_space = Set [Rng 65 90, WS]"

definition name_patterns :: "re list" where
  "name_patterns =
    [ seqs [Rep 3 None AZ, ws_plus, Rep 3 None AZ, Rep 0 None (seqs [ws_plus, Rep 3 None AZ])],
      seqs [AZ, times 10 50 (Set [Rng 65 90, WS, Ch 45, Ch 39])],
      seqs [Alt (lit ''Name'') (lit ''NAME''), ws_star, opt (lit '':''), ws_star,
            Grp 1 (Rep 1 None AZ_space)],
      seqs [lit ''Full'', ws_star, lit ''Name'', ws_star, opt (lit '':''), ws_star,
            Grp 1 (Rep 1 None AZ_space)],
      seqs [times 2 6 (Grp 1 (seqs [Rep 2 None AZ, ws_plus])), Rep 2 None AZ],
      seqs [Rep 1 None AZ, times 1 5 (seqs [ws_plus, Rep 1 None AZ])],
      seqs [Str ar_the_name, ws_star, opt (lit '':''), ws_star, Grp 1 (Rep 1 None AZ_space)],
      seqs [Str ar_the_name, ws_star, Str ar_the_full, ws_star, opt (lit '':''), ws_star,
            Grp 1 (Rep 1 None AZ_space)],
      Grp 1 (seqs [Rep 4 None AZ, ws_plus, Rep 4 None AZ, ws_plus, Rep 4 None AZ, ws_plus,
                   Rep 4 None AZ]),
      seqs [Alt (seqs [lit ''Full'', ws_star, lit ''Name''])
                (seqs [Str ar_the_name, ws_star, Str ar_the_full]),
            ws_star, opt (lit '':''), ws_star, Grp 1 (times 15 50 AZ_space)] ]"

text \<open>\<open>self.sex\<close>.\<close>

definition sex_label :: re where
  "sex_label = Alt (Str ar_the_sex) (lit ''Sex'')"

definition MF :: re where
  "MF = Set [Ch 77, Ch 70]"

definition sex_patterns :: "re list" where
  "sex_patterns =
    [ seqs [sex_label, ws_star, opt (lit '':''), ws_star, Grp 1 (Alt (Str ar_male) (Str ar_female)),
            ws_star, Grp 2 MF],
      seqs [sex_label, ws_star, opt (lit '':''), ws_star, Grp 1 MF, ws_star,
            Grp 2 (Alt (Str ar_male) (Str ar_female))],
      seqs [sex_label, ws_star, opt (lit '':''), ws_star, Grp 1 MF, opt (lit ''/''), ws_star,
            Str ar_male],
      seqs [sex_label, ws_star, opt (lit '':''), ws_star, Grp 1 MF, opt (lit ''/''), ws_star,
            Str ar_female],
      seqs [Str ar_male, ws_star, Grp 1 MF],
      seqs [Str ar_female, ws_star, Grp 1 MF],
      seqs [Grp 1 MF, ws_star, Str ar_male],
      seqs [Grp 1 MF, ws_star, Str ar_female] ]"

text \<open>\<open>self.sudan_indicators\<close> and \<open>self.non_name_words\<close>.\<close>

definition sudan_indicators :: "ustring list" where
  "sudan_indicators =
    [ ustr ''SDN'', ustr ''SUDAN'', ustr ''REPUBLIC OF SUDAN'', ustr ''REPUBLIC OF THE SUDAN'',
      [0x627, 0x644, 0x633, 0x648, 0x62F, 0x627, 0x646],
      [0x62C, 0x645, 0x647, 0x648, 0x631, 0x64A, 0x629, 32,
       0x627, 0x644, 0x633, 0x648, 0x62F, 0x627, 0x646],
      ustr ''SUDANESE'', [0x633, 0x648, 0x62F, 0x627, 0x646, 0x64A] ]"

definition non_name_words :: "ustring list" where
  "non_name_words =
    map ustr
      [ ''REPUBLIC'', ''SUDAN'', ''PASSPORT'', ''TYPE'', ''NATIONAL'',
        ''NUMBER'', ''DATE'', ''BIRTH'', ''ISSUE'', ''EXPIRY'', ''SEX'',
        ''PLACE'', ''NATIONALITY'', ''SIGNATURE'', ''HOLDER'', ''AUTHORITY'',
        ''GENDER'', ''COUNTRY'', ''CODE'', ''DOCUMENT'', ''IDENTIFICATION'' ] @
    [ [0x62C, 0x645, 0x647, 0x648, 0x631, 0x64A, 0x629],
      [0x627, 0x644, 0x633, 0x648, 0x62F, 0x627, 0x646],
      [0x62C, 0x648, 0x627, 0x632], [0x646, 0x648, 0x639], [0x631, 0x642, 0x645],
      [0x62A, 0x627, 0x631, 0x64A, 0x62E], [0x645, 0x64A, 0x644, 0x627, 0x62F],
      [0x625, 0x635, 0x62F, 0x627, 0x631], [0x627, 0x646, 0x62A, 0x647, 0x627, 0x621],
      [0x645, 0x643, 0x627, 0x646] ] @
    [ ustr ''SDN'' ]"

section \<open>Python built-ins used by the extractors\<close>

text \<open>\<open>s.replace(old, new)\<close> for a one-character \<open>old\<close>, \<open>sep.join(xs)\<close>, \<open>s.split(sep)\<close>
  for a one-character separator, and the substring test \<open>w in s\<close>.\<close>

definition py_replace :: "nat \<Rightarrow> ustring \<Rightarrow> ustring \<Rightarrow> ustring" where
  "py_replace old new s = concat (map (\<lambda>c. if c = old then new else [c]) s)"

fun py_join :: "ustring \<Rightarrow> ustring list \<Rightarrow> ustring" where
  "py_join sep [] = []"
| "py_join sep [x] = x"
| "py_join sep (x # y # xs) = x @ sep @ py_join sep (y # xs)"

primrec py_split_on_aux :: "nat \<Rightarrow> ustring \<Rightarrow> ustring \<Rightarrow> ustring list" where
  "py_split_on_aux sep [] cur = [cur]"
| "py_split_on_aux sep (c # cs) cur =
     (if c = sep then cur # py_split_on_aux sep cs [] else py_split_on_aux sep cs (cur @ [c]))"

definition py_split_on :: "nat \<Rightarrow> ustring \<Rightarrow> ustring list" where
  "py_split_on sep s = py_split_on_aux sep s []"

definition py_in :: "ustring \<Rightarrow> ustring \<Rightarrow> bool" where
  "py_in w s \<longleftrightarrow> list_ex (\<lambda>k. take (length w) (drop k s) = w) [0 ..< Suc (length s)]"

text \<open>
  \<open>int(s)\<close> on the strings the code passes to it, which are runs of \<open>\d\<close>:
  the value of a non-empty digit string, ValueError (\<open>None\<close>) otherwise.
\<close>

definition digit_value :: "nat \<Rightarrow> nat" where
  "digit_value c =
     (if 48 \<le> c \<and> c \<le> 57 then c - 48 else if 1632 \<le> c \<and> c \<le> 1641 then c - 1632 else c - 1776)"

definition py_int :: "ustring \<Rightarrow> nat option" where
  "py_int s =
     (if s \<noteq> [] \<and> list_all is_digit s then Some (foldl (\<lambda>n c. 10 * n + digit_value c) 0 s)
      else None)"

text \<open>\<open>str(n)\<close> and the format \<open>{n:02d}\<close> for a natural number.\<close>

function show_nat :: "nat \<Rightarrow> ustring" where
  "show_nat n = (if n < 10 then [48 + n] else show_nat (n div 10) @ [48 + n mod 10])"
  by pat_completeness auto
termination
  by (relation "measure id") auto

declare show_nat.simps [simp del]

definition fmt02 :: "nat \<Rightarrow> ustring" where
  "fmt02 n = (if n < 10 then 48 # show_nat n else show_nat n)"

text \<open>\<open>max(xs, key=k)\<close>: the first element with the greatest key.\<close>

definition py_max_by :: "('a \<Rightarrow> nat) \<Rightarrow> 'a \<Rightarrow> 'a list \<Rightarrow> 'a" where
  "py_max_by k x xs = foldl (\<lambda>best y. if k best < k y then y else best) x xs"

text \<open>
  \<open>Counter(xs)\<close> keeps its keys in first-seen order; \<open>most_common(1)\<close> is
  \<open>max\<close> over the items by count, so the first key with the greatest count.
\<close>

fun counter_add :: "('a \<times> nat) list \<Rightarrow> 'a \<Rightarrow> ('a \<times> nat) list" where
  "counter_add [] x = [(x, 1)]"
| "counter_add ((y, n) # c) x = (if x = y then (y, Suc n) # c else (y, n) # counter_add c x)"

definition counter :: "'a list \<Rightarrow> ('a \<times> nat) list" where
  "counter xs = foldl counter_add [] xs"

definition most_common_1 :: "'a list \<Rightarrow> ('a \<times> nat) option" where
  "most_common_1 xs = (case counter xs of [] \<Rightarrow> None | i # items \<Rightarrow> Some (py_max_by snd i items))"

section \<open>Data model\<close>

text \<open>
  The draft record is a dict: the twelve field keys (and later the score, the summary and
  the MRZ keys) map to \<open>None\<close>, a string or a float; \<open>confidence_scores\<close> and
  \<open>extraction_method\<close> are its two sub-dicts, kept as components of their own.
  A draft record always has both sub-dicts (\<open>_smart_field_extraction\<close> creates them).
\<close>

datatype pyval = PNone | PStr ustring | PFloat real

fun truthy :: "pyval \<Rightarrow> bool" where
  "truthy PNone = False"
| "truthy (PStr s) = (s \<noteq> [])"
| "truthy (PFloat x) = (x \<noteq> 0)"

record doc_record =
  field :: "string \<rightharpoonup> pyval"
  confidence_scores :: "string \<rightharpoonup> real"
  extraction_method :: "string \<rightharpoonup> ustring"

text \<open>\<open>data.get(key)\<close>.\<close>

definition dict_get :: "doc_record \<Rightarrow> string \<Rightarrow> pyval" where
  "dict_get data key = (case field data key of None \<Rightarrow> PNone | Some v \<Rightarrow> v)"

datatype py_error = AttributeError | TypeError

text \<open>
  The MRZ record: its string entries by key (\<open>None\<close> for a key that is absent or holds
  \<open>None\<close>), its confidence and its method tag (\<open>None\<close> when the key is absent, where
  \<open>.get\<close> takes its default).
\<close>

record mrz_record =
  mrz_fields :: "string \<rightharpoonup> ustring"
  mrz_confidence :: "real option"
  mrz_extraction_method :: "ustring option"

section \<open>Field extractors (\<open>UltraPassportExtractor\<close>)\<close>

text \<open>
  Every extractor takes the token-confidence table \<open>self.ocr_confidence_data\<close> as \<open>tbl\<close>.
  \<open>match.group(1) if match.groups() else match.group(0)\<close>: \<open>groups()\<close> is non-empty as soon
  as the pattern has a group, and \<open>group(1)\<close> is \<open>None\<close> when that group took no part.
\<close>

definition group1_or_whole :: "re \<Rightarrow> rmatch \<Rightarrow> ustring option" where
  "group1_or_whole r m = (if num_groups r = 0 then Some (fst m) else snd m 1)"

definition set_field :: "doc_record \<Rightarrow> string \<Rightarrow> ustring \<Rightarrow> doc_record" where
  "set_field data key v = data\<lparr>field := (field data)(key \<mapsto> PStr v)\<rparr>"

definition set_confidence :: "doc_record \<Rightarrow> string \<Rightarrow> real \<Rightarrow> doc_record" where
  "set_confidence data key c = data\<lparr>confidence_scores := (confidence_scores data)(key \<mapsto> c)\<rparr>"

definition set_method :: "doc_record \<Rightarrow> string \<Rightarrow> ustring \<Rightarrow> doc_record" where
  "set_method data key m = data\<lparr>extraction_method := (extraction_method data)(key \<mapsto> m)\<rparr>"

subsection \<open>Passport number\<close>

text \<open>\<open>^[A-Z]?[0-9]{8,9}$\<close>, applied by \<open>re.match\<close>.\<close>

definition passport_accept :: re where
  "passport_accept = seqs [opt AZ, times 8 9 d09, Eol]"

definition normalize_candidate :: "ustring \<Rightarrow> ustring" where
  "normalize_candidate g = py_upper (py_replace 32 [] (py_replace 79 [48] g))"

text \<open>The candidates of one observation: pattern by pattern, and match by match.\<close>

definition passport_candidates :: "ustring \<Rightarrow> ustring option list" where
  "passport_candidates text =
     concat (map (\<lambda>pattern. map (group1_or_whole pattern) (re_finditer pattern True text))
       passport_number_patterns)"

text \<open>The two inner loops: the first accepted candidate; \<open>None.replace\<close> raises.\<close>

fun first_passport_candidate :: "ustring option list \<Rightarrow> py_error + ustring option" where
  "first_passport_candidate [] = Inr None"
| "first_passport_candidate (None # gs) = Inl AttributeError"
| "first_passport_candidate (Some g # gs) =
     (let candidate = normalize_candidate g
      in if re_match passport_accept False candidate \<noteq> None then Inr (Some candidate)
         else first_passport_candidate gs)"

fun extract_passport_number ::
  "conf_table \<Rightarrow> doc_record \<Rightarrow> (ustring \<times> ustring) list \<Rightarrow> py_error + doc_record" where
  "extract_passport_number tbl data [] = Inr data"
| "extract_passport_number tbl data ((source_name, text) # all_texts) =
     (case first_passport_candidate (passport_candidates text) of
        Inl e \<Rightarrow> Inl e
      | Inr (Some candidate) \<Rightarrow>
          Inr (set_confidence
                (set_method (set_field data ''passport_number'' candidate)
                   ''passport_number'' source_name)
                ''passport_number'' (calculate_dynamic_confidence tbl candidate 0.95))
      | Inr None \<Rightarrow> extract_passport_number tbl data all_texts)"

subsection \<open>National ID\<close>

text \<open>\<open>[\s\.]\<close> and \<open>^\d{3}-\d{4}-\d{4,5}$\<close>.\<close>

definition id_sep :: re where
  "id_sep = Set [WS, Ch 46]"

definition national_id_accept :: re where
  "national_id_accept =
     seqs [times 3 3 digit, lit ''-'', times 4 4 digit, lit ''-'', times 4 5 digit, Eol]"

definition national_id_candidates :: "ustring \<Rightarrow> ustring option list" where
  "national_id_candidates text =
     concat (map (\<lambda>pattern. map (group1_or_whole pattern) (re_finditer pattern False text))
       national_id_patterns)"

text \<open>\<open>re.sub\<close> on \<open>None\<close> raises TypeError.\<close>

fun first_national_id :: "ustring option list \<Rightarrow> py_error + ustring option" where
  "first_national_id [] = Inr None"
| "first_national_id (None # gs) = Inl TypeError"
| "first_national_id (Some g # gs) =
     (let candidate = re_sub id_sep (ustr ''-'') g
      in if re_match national_id_accept False candidate \<noteq> None then Inr (Some candidate)
         else first_national_id gs)"

definition extract_national_id :: "conf_table \<Rightarrow> doc_record \<Rightarrow> ustring \<Rightarrow> py_error + doc_record" where
  "extract_national_id tbl data text =
     (if text = [] then Inr data
      else case first_national_id (national_id_candidates text) of
             Inl e \<Rightarrow> Inl e
           | Inr (Some candidate) \<Rightarrow>
               Inr (set_confidence (set_field data ''national_id'' candidate)
                      ''national_id'' (calculate_dynamic_confidence tbl candidate 0.9))
           | Inr None \<Rightarrow> Inr data)"

subsection \<open>Dates\<close>

text \<open>\<open>[\s\.]+\<close>, the separator runs replaced by a hyphen.\<close>

definition date_sep :: re where
  "date_sep = Rep 1 None (Set [WS, Ch 46])"

definition all_dates :: "ustring \<Rightarrow> found list" where
  "all_dates text = concat (map (\<lambda>pattern. re_findall pattern False text) date_patterns)"

text \<open>
  The body of the loop over \<open>all_dates\<close>: the formatted date, or nothing when the parts
  are not three, an \<open>int\<close> fails (the bare \<open>except\<close>) or a range check fails.
\<close>

definition format_date :: "nat \<Rightarrow> nat \<Rightarrow> nat \<Rightarrow> ustring" where
  "format_date day month year = fmt02 day @ ustr ''-'' @ fmt02 month @ ustr ''-'' @ show_nat year"

definition valid_date :: "found \<Rightarrow> ustring list" where
  "valid_date date_parts =
     (let date_str = (case date_parts of Tuple ps \<Rightarrow> py_join (ustr ''-'') ps | One s \<Rightarrow> s);
          date_str = re_sub date_sep (ustr ''-'') date_str;
          parts = py_split_on 45 date_str
      in if length parts = 3
         then (case (py_int (parts ! 0), py_int (parts ! 1), py_int (parts ! 2)) of
                 (Some day, Some month, Some year) \<Rightarrow>
                   if 1 \<le> day \<and> day \<le> 31 \<and> 1 \<le> month \<and> month \<le> 12 \<and> 1900 \<le> year \<and> year \<le> 2100
                   then [format_date day month year] else []
               | _ \<Rightarrow> [])
         else [])"

definition valid_dates :: "ustring \<Rightarrow> ustring list" where
  "valid_dates text = concat (map valid_date (all_dates text))"

definition assign_dates :: "conf_table \<Rightarrow> doc_record \<Rightarrow> ustring list \<Rightarrow> doc_record" where
  "assign_dates tbl data vds =
     (let data =
            (if 1 \<le> length vds
             then set_confidence (set_field data ''date_of_birth'' (vds ! 0))
                    ''date_of_birth'' (calculate_dynamic_confidence tbl (vds ! 0) 0.85)
             else data)
      in if 2 \<le> length vds
         then
           let issue_or_expiry = tl vds;
               data = set_confidence (set_field data ''date_of_issue'' (issue_or_expiry ! 0))
                        ''date_of_issue'' (calculate_dynamic_confidence tbl (issue_or_expiry ! 0) 0.8)
           in if 1 < length issue_or_expiry
              then set_confidence (set_field data ''date_of_expiry'' (last issue_or_expiry))
                     ''date_of_expiry''
                     (calculate_dynamic_confidence tbl (last issue_or_expiry) 0.85)
              else data
         else data)"

definition extract_dates :: "conf_table \<Rightarrow> doc_record \<Rightarrow> ustring \<Rightarrow> doc_record" where
  "extract_dates tbl data text =
     (if text = [] then data else assign_dates tbl data (valid_dates text))"

subsection \<open>Name\<close>

definition found_text :: "found \<Rightarrow> ustring" where
  "found_text f = (case f of Tuple ps \<Rightarrow> py_join (ustr '' '') ps | One s \<Rightarrow> s)"

definition name_candidates_of :: "ustring \<times> ustring \<Rightarrow> (ustring \<times> ustring) list" where
  "name_candidates_of obs =
     (case obs of (source_name, text) \<Rightarrow>
        concat (map (\<lambda>pattern.
          concat (map (\<lambda>f.
            let name = py_upper (py_strip (found_text f))
            in if \<not> list_ex (\<lambda>word. py_in word name) non_name_words
                  \<and> 10 \<le> length name \<and> length name \<le> 60
               then [(name, source_name)] else [])
            (re_findall pattern False text)))
          name_patterns))"

definition extract_name :: "conf_table \<Rightarrow> doc_record \<Rightarrow> (ustring \<times> ustring) list \<Rightarrow> doc_record" where
  "extract_name tbl data all_texts =
     (case concat (map name_candidates_of all_texts) of
        [] \<Rightarrow> data
      | c # cs \<Rightarrow>
          let longest = py_max_by (\<lambda>x. length (fst x)) c cs
          in set_confidence
               (set_method (set_field data ''full_name'' (fst longest)) ''full_name'' (snd longest))
               ''full_name'' (calculate_dynamic_confidence tbl (fst longest) 0.85))"

subsection \<open>Sex\<close>

text \<open>The loop over \<open>self.patterns.sex\<close>; \<open>re.search\<close> with IGNORECASE.\<close>

definition sex_value_of :: "ustring option \<Rightarrow> ustring option" where
  "sex_value_of v = (case v of None \<Rightarrow> None | Some [] \<Rightarrow> None | Some (c # _) \<Rightarrow> Some [upper_char c])"

fun search_sex :: "re list \<Rightarrow> ustring \<Rightarrow> ustring option" where
  "search_sex [] text = None"
| "search_sex (pattern # patterns) text =
     (case re_search pattern True text of
        None \<Rightarrow> search_sex patterns text
      | Some m \<Rightarrow>
          (case sex_value_of (group1_or_whole pattern m) of
             None \<Rightarrow> search_sex patterns text
           | Some sex_value \<Rightarrow>
               if sex_value = ustr ''M'' \<or> sex_value = ustr ''F'' then Some sex_value
               else search_sex patterns text))"

definition extract_sex :: "conf_table \<Rightarrow> doc_record \<Rightarrow> ustring \<Rightarrow> doc_record" where
  "extract_sex tbl data text =
     (if text = [] then data
      else case search_sex sex_patterns text of
             None \<Rightarrow> data
           | Some sex_value \<Rightarrow>
               set_method
                 (set_confidence (set_field data ''sex'' sex_value)
                    ''sex'' (calculate_dynamic_confidence tbl sex_value 0.95))
                 ''sex'' (ustr ''regex_search''))"

subsection \<open>Places\<close>

text \<open>
  \<open>f'({label})\s*[:/]?\s*([A-Z][A-Z\s/]{3,25})'\<close> for each label, and the pattern
  \<open>\s*/\s*[U+0600-U+06FF\s]+\<close> that removes the Arabic part.
\<close>

definition place_patterns :: "ustring list \<Rightarrow> re list" where
  "place_patterns label_patterns =
     map (\<lambda>label. seqs [Grp 1 (Str label), ws_star, opt (Set [Ch 58, Ch 47]), ws_star,
                        Grp 2 (seqs [AZ, times 3 25 (Set [Rng 65 90, WS, Ch 47])])])
       label_patterns"

definition arabic_part :: re where
  "arabic_part = seqs [ws_star, lit ''/'', ws_star, Rep 1 None (Set [Rng 0x600 0x6FF, WS])]"

text \<open>One match: the cleaned candidate if it survives; \<open>None.strip\<close> raises.\<close>

definition clean_place_candidate :: "rmatch \<Rightarrow> py_error + ustring list" where
  "clean_place_candidate m =
     (case snd m 2 of
        None \<Rightarrow> Inl AttributeError
      | Some g \<Rightarrow>
          let place_candidate = py_strip g;
              place_candidate = re_sub arabic_part [] place_candidate;
              place_candidate = py_upper (py_strip (hd (py_split_on 10 place_candidate)))
          in if 3 < length place_candidate \<and> length place_candidate < 25
                \<and> place_candidate \<notin> set non_name_words
             then Inr [place_candidate] else Inr [])"

fun collect_places :: "rmatch list \<Rightarrow> py_error + ustring list" where
  "collect_places [] = Inr []"
| "collect_places (m # matches) =
     (case clean_place_candidate m of
        Inl e \<Rightarrow> Inl e
      | Inr c \<Rightarrow> (case collect_places matches of Inl e \<Rightarrow> Inl e | Inr cs \<Rightarrow> Inr (c @ cs)))"

definition place_matches :: "ustring list \<Rightarrow> (ustring \<times> ustring) list \<Rightarrow> rmatch list" where
  "place_matches label_patterns all_texts =
     concat (map (\<lambda>(source, text).
       concat (map (\<lambda>pattern. re_finditer pattern True text) (place_patterns label_patterns)))
       all_texts)"

definition extract_place ::
  "(ustring \<times> ustring) list \<Rightarrow> ustring list \<Rightarrow> py_error + (ustring \<times> ustring) option" where
  "extract_place all_texts label_patterns =
     (case collect_places (place_matches label_patterns all_texts) of
        Inl e \<Rightarrow> Inl e
      | Inr candidates \<Rightarrow>
          (case most_common_1 candidates of
             None \<Rightarrow> Inr None
           | Some most_common \<Rightarrow> Inr (Some (fst most_common, ustr ''regex_candidate_selection''))))"

definition pob_labels :: "ustring list" where
  "pob_labels = [ustr ''Place of Birth'', ar_place_of_birth]"

definition poi_labels :: "ustring list" where
  "poi_labels = [ustr ''Place of Issue'', ustr ''Authority'', ar_place_of_issue, ar_authority_of_issue]"

definition extract_place_of_birth ::
  "conf_table \<Rightarrow> doc_record \<Rightarrow> (ustring \<times> ustring) list \<Rightarrow> py_error + doc_record" where
  "extract_place_of_birth tbl data all_texts =
     (case extract_place all_texts pob_labels of
        Inl e \<Rightarrow> Inl e
      | Inr None \<Rightarrow> Inr data
      | Inr (Some result) \<Rightarrow>
          Inr (set_confidence
                (set_method (set_field data ''place_of_birth'' (fst result))
                   ''place_of_birth'' (snd result))
                ''place_of_birth'' (calculate_dynamic_confidence tbl (fst result) 0.85)))"

definition extract_place_of_issue ::
  "conf_table \<Rightarrow> doc_record \<Rightarrow> (ustring \<times> ustring) list \<Rightarrow> py_error + doc_record" where
  "extract_place_of_issue tbl data all_texts =
     (case extract_place all_texts poi_labels of
        Inl e \<Rightarrow> Inl e
      | Inr None \<Rightarrow> Inr data
      | Inr (Some result) \<Rightarrow>
          Inr (set_confidence
                (set_method (set_field data ''place_of_issue'' (fst result))
                   ''place_of_issue'' (snd result))
                ''place_of_issue'' (calculate_dynamic_confidence tbl (fst result) 0.80)))"

subsection \<open>Nationality\<close>

definition extract_nationality :: "doc_record \<Rightarrow> ustring \<Rightarrow> doc_record" where
  "extract_nationality data text =
     (if text = [] then data
      else
        let text_upper = py_upper text
        in if list_ex (\<lambda>indicator. py_in indicator text_upper) sudan_indicators
           then set_confidence
                  (set_field (set_field (set_field data ''nationality'' (ustr ''SUDANESE''))
                     ''country_code'' (ustr ''SDN'')) ''passport_type'' (ustr ''PC''))
                  ''nationality'' 0.98
           else data)"

section \<open>The pipeline\<close>

text \<open>An extractor that raised ends the pipeline with its exception.\<close>

definition and_then :: "'e + 'a \<Rightarrow> ('a \<Rightarrow> 'e + 'b) \<Rightarrow> 'e + 'b" where
  "and_then r f = (case r of Inl e \<Rightarrow> Inl e | Inr x \<Rightarrow> f x)"

definition field_names :: "string list" where
  "field_names =
    [ ''passport_type'', ''country_code'', ''passport_number'', ''full_name'', ''nationality'',
      ''place_of_birth'', ''place_of_issue'', ''sex'', ''date_of_birth'', ''date_of_issue'',
      ''date_of_expiry'', ''national_id'' ]"

definition empty_record :: doc_record where
  "empty_record =
     \<lparr> field = map_of (map (\<lambda>k. (k, PNone)) field_names),
       confidence_scores = Map.empty, extraction_method = Map.empty \<rparr>"

definition smart_field_extraction ::
  "conf_table \<Rightarrow> (ustring \<times> ustring) list \<Rightarrow> py_error + doc_record" where
  "smart_field_extraction tbl all_texts =
     (let data = empty_record;
          combined_text = py_join [10] (map snd all_texts)
      in and_then (extract_passport_number tbl data all_texts) (\<lambda>data.
         and_then (extract_national_id tbl data combined_text) (\<lambda>data.
         let data = extract_dates tbl data combined_text;
             data = extract_name tbl data all_texts;
             data = extract_sex tbl data combined_text
         in and_then (extract_place_of_birth tbl data all_texts) (\<lambda>data.
            and_then (extract_place_of_issue tbl data all_texts) (\<lambda>data.
            Inr (extract_nationality data combined_text))))))"

subsection \<open>Score and summary\<close>

definition important_fields :: "string list" where
  "important_fields =
    [ ''passport_number'', ''full_name'', ''nationality'', ''date_of_birth'',
      ''date_of_issue'', ''date_of_expiry'', ''sex'', ''place_of_birth'', ''place_of_issue'' ]"

definition summary_fields :: "string list" where
  "summary_fields =
    [ ''passport_number'', ''full_name'', ''nationality'', ''national_id'',
      ''date_of_birth'', ''date_of_issue'', ''date_of_expiry'', ''sex'',
      ''place_of_birth'', ''place_of_issue'', ''country_code'' ]"

definition count_extracted :: "doc_record \<Rightarrow> string list \<Rightarrow> nat" where
  "count_extracted data keys = length (filter (\<lambda>field. truthy (dict_get data field)) keys)"

definition calculate_score :: "doc_record \<Rightarrow> real" where
  "calculate_score data =
     round2 (of_nat (count_extracted data important_fields) / of_nat (length important_fields) * 100)"

definition generate_summary :: "doc_record \<Rightarrow> ustring" where
  "generate_summary data =
     show_nat (count_extracted data summary_fields) @ ustr ''/'' @ show_nat (length summary_fields)
       @ ustr '' fields extracted''"

subsection \<open>MRZ fusion (\<open>enhance_extraction_with_mrz\<close>)\<close>

definition field_mapping :: "(string \<times> string) list" where
  "field_mapping =
    [ (''passport_number'', ''passport_number''), (''nationality'', ''nationality''),
      (''date_of_birth'', ''date_of_birth''), (''date_of_expiry'', ''date_of_expiry''),
      (''sex'', ''sex''), (''names'', ''full_name''), (''issuing_country'', ''country_code'') ]"

text \<open>
  The body of the loop over \<open>field_mapping\<close>. \<open>mrz_data.get(mrz_field)\<close> is truthy for a
  non-empty string; the current confidence defaults to 0.0, the MRZ confidence to 0.8 and
  the MRZ method to \<open>'mrz'\<close>.
\<close>

definition merge_field :: "mrz_record \<Rightarrow> doc_record \<Rightarrow> string \<times> string \<Rightarrow> doc_record" where
  "merge_field mrz_data enhanced_data fm =
     (case fm of (mrz_field, extract_field) \<Rightarrow>
        (case mrz_fields mrz_data mrz_field of
           None \<Rightarrow> enhanced_data
         | Some mrz_value \<Rightarrow>
             if mrz_value = [] then enhanced_data
             else
               let current_value = dict_get enhanced_data extract_field;
                   current_confidence =
                     (case confidence_scores enhanced_data extract_field of None \<Rightarrow> 0 | Some c \<Rightarrow> c);
                   mrz_conf = (case mrz_confidence mrz_data of None \<Rightarrow> 0.8 | Some c \<Rightarrow> c)
               in if \<not> truthy current_value \<or> current_confidence < mrz_conf
                  then set_method
                         (set_confidence (set_field enhanced_data extract_field mrz_value)
                            extract_field mrz_conf)
                         extract_field
                         (case mrz_extraction_method mrz_data of None \<Rightarrow> ustr ''mrz'' | Some m \<Rightarrow> m)
                  else enhanced_data))"

definition enhance_extraction_with_mrz :: "doc_record \<Rightarrow> mrz_record \<Rightarrow> doc_record" where
  "enhance_extraction_with_mrz extracted_data mrz_data =
     (let enhanced_data = foldl (merge_field mrz_data) extracted_data field_mapping
      in enhanced_data\<lparr>field := (field enhanced_data)
           (''mrz_text'' \<mapsto> (case mrz_fields mrz_data ''mrz_text'' of None \<Rightarrow> PNone | Some t \<Rightarrow> PStr t),
            ''mrz_confidence'' \<mapsto>
               PFloat (case mrz_confidence mrz_data of None \<Rightarrow> 0 | Some c \<Rightarrow> c),
            ''mrz_extraction_method'' \<mapsto>
               PStr (case mrz_extraction_method mrz_data of None \<Rightarrow> ustr ''none'' | Some m \<Rightarrow> m))\<rparr>)"

subsection \<open>\<open>UltraPassportExtractor.extract\<close>\<close>

text \<open>
  The OCR passes (\<open>_multi_pass_extraction\<close>, which also adds this image's tokens to the
  confidence table) and the MRZ decoder (\<open>extract_mrz_data\<close>) work on images and are
  parameters. \<open>preprocessed_images\<close> is a dict, in insertion order.
\<close>

definition collect_texts ::
  "('img \<Rightarrow> conf_table \<Rightarrow> (ustring \<times> ustring) list \<times> conf_table) \<Rightarrow>
   (ustring \<times> ustring) list \<times> conf_table \<Rightarrow> ustring \<times> 'img \<Rightarrow>
   (ustring \<times> ustring) list \<times> conf_table" where
  "collect_texts multi_pass_extraction acc named_image =
     (case (acc, named_image) of ((all_extracted_texts, tbl), (preprocess_name, img)) \<Rightarrow>
        (case multi_pass_extraction img tbl of (texts, tbl') \<Rightarrow>
           (all_extracted_texts @
              map (\<lambda>(ocr_method, text). (preprocess_name @ ustr ''_'' @ ocr_method, text)) texts,
            tbl')))"

definition extractor_extract ::
  "('img \<Rightarrow> conf_table \<Rightarrow> (ustring \<times> ustring) list \<times> conf_table) \<Rightarrow> ('img \<Rightarrow> mrz_record) \<Rightarrow>
   conf_table \<Rightarrow> (ustring \<times> 'img) list \<Rightarrow> (py_error + doc_record) \<times> conf_table" where
  "extractor_extract multi_pass_extraction extract_mrz_data tbl0 preprocessed_images =
     (case foldl (collect_texts multi_pass_extraction) ([], tbl0) preprocessed_images of
        (all_extracted_texts, tbl) \<Rightarrow>
          (and_then (smart_field_extraction tbl all_extracted_texts) (\<lambda>extracted_data.
             let extracted_data =
                   (case preprocessed_images of
                      [] \<Rightarrow> extracted_data
                    | (_, main_image) # _ \<Rightarrow>
                        let mrz_data = extract_mrz_data main_image
                        in (case mrz_fields mrz_data ''mrz_text'' of
                              None \<Rightarrow> extracted_data
                            | Some t \<Rightarrow>
                                if t = [] then extracted_data
                                else enhance_extraction_with_mrz extracted_data mrz_data));
                 extracted_data = extracted_data\<lparr>field := (field extracted_data)
                     (''extraction_score'' \<mapsto> PFloat (calculate_score extracted_data))\<rparr>;
                 extracted_data = extracted_data\<lparr>field := (field extracted_data)
                     (''extraction_summary'' \<mapsto> PStr (generate_summary extracted_data))\<rparr>
             in Inr extracted_data),
           tbl))"

section \<open>\<open>PassportPatterns.parse_date_string\<close>\<close>

text \<open>
  The three formats are tried in order with \<open>re.match\<close>. When one matches, the groups are
  converted with \<open>int\<close> and \<open>self.validate_date\<close> is called; \<open>PassportPatterns\<close> defines
  no such method, so the call raises AttributeError, which the handler
  \<open>except (ValueError, IndexError)\<close> does not catch.
\<close>

definition slashes :: re where
  "slashes = Rep 1 None (lit ''/'')"

definition formats_to_try :: "re list" where
  "formats_to_try =
    [ seqs [Grp 1 (times 1 2 digit), lit ''-'', Grp 2 (times 1 2 digit), lit ''-'',
            Grp 3 (times 4 4 digit)],
      seqs [Grp 1 (times 1 2 digit), lit ''-'', Grp 2 (times 1 2 digit), lit ''-'',
            Grp 3 (times 4 4 digit)],
      seqs [Grp 1 (times 4 4 digit), lit ''-'', Grp 2 (times 1 2 digit), lit ''-'',
            Grp 3 (times 1 2 digit)] ]"

fun try_formats :: "re list \<Rightarrow> ustring \<Rightarrow> py_error + (nat \<times> nat \<times> nat) option" where
  "try_formats [] date_str = Inr None"
| "try_formats (pattern # formats) date_str =
     (case re_match pattern False date_str of
        None \<Rightarrow> try_formats formats date_str
      | Some m \<Rightarrow>
          (case (py_int (group_or_empty m 1), py_int (group_or_empty m 2), py_int (group_or_empty m 3)) of
             (Some a, Some b, Some c) \<Rightarrow> Inl AttributeError
           | _ \<Rightarrow> try_formats formats date_str))"

definition parse_date_string :: "ustring \<Rightarrow> py_error + (nat \<times> nat \<times> nat) option" where
  "parse_date_string date_str =
     (let date_str = re_sub date_sep (ustr ''-'') (py_strip date_str);
          date_str = re_sub slashes (ustr ''-'') date_str
      in try_formats formats_to_try date_str)"

section \<open>Patterns that read no further than their match\<close>

text \<open>
  \<open>bounded r\<close>: \<open>r\<close> has neither an unbounded repetition nor \<open>$\<close>.
  \<open>rejects ic c r\<close>: no literal and no class of \<open>r\<close> matches the character \<open>c\<close>.
\<close>

primrec bounded :: "re \<Rightarrow> bool" where
  "bounded (Str w) = True"
| "bounded (Set items) = True"
| "bounded (Seq a b) = (bounded a \<and> bounded b)"
| "bounded (Alt a b) = (bounded a \<and> bounded b)"
| "bounded (Rep lo hi r) = (hi \<noteq> None \<and> bounded r)"
| "bounded (Grp k r) = bounded r"
| "bounded Eol = False"

primrec rejects :: "bool \<Rightarrow> nat \<Rightarrow> re \<Rightarrow> bool" where
  "rejects ic c (Str w) = list_all (\<lambda>a. \<not> lit_eq ic a c) w"
| "rejects ic c (Set items) = (\<not> set_match ic items c)"
| "rejects ic c (Seq a b) = (rejects ic c a \<and> rejects ic c b)"
| "rejects ic c (Alt a b) = (rejects ic c a \<and> rejects ic c b)"
| "rejects ic c (Rep lo hi r) = rejects ic c r"
| "rejects ic c (Grp k r) = rejects ic c r"
| "rejects ic c Eol = True"

section \<open>What an extractor records for a field\<close>

text \<open>
  The field holds a string, and its confidence entry is the dynamic confidence of that
  string for the base confidence of the extractor.
\<close>

definition populated_with :: "conf_table \<Rightarrow> real \<Rightarrow> string \<Rightarrow> doc_record \<Rightarrow> bool" where
  "populated_with tbl base key d \<longleftrightarrow>
     (\<exists>v. field d key = Some (PStr v) \<and>
          confidence_scores d key = Some (calculate_dynamic_confidence tbl v base))"

definition has_method :: "string \<Rightarrow> doc_record \<Rightarrow> bool" where
  "has_method key d \<longleftrightarrow> (\<exists>m. extraction_method d key = Some m)"

section \<open>Majority vote, as the specification words it\<close>

text \<open>
  The most frequent candidate; among equally frequent ones, the one seen first: the first
  candidate of the list that no candidate outnumbers.
\<close>

definition majority_vote :: "'a list \<Rightarrow> 'a option" where
  "majority_vote xs = find (\<lambda>x. list_all (\<lambda>y. count_list xs y \<le> count_list xs x) xs) xs"

text \<open>The keys of a \<open>Counter\<close>: each element once, in first-seen order.\<close>

fun first_seen :: "'a list \<Rightarrow> 'a list" where
  "first_seen [] = []"
| "first_seen (x # xs) = x # removeAll x (first_seen xs)"

section \<open>Groups that every match sets\<close>

text \<open>
  \<open>always_sets k r\<close>: group \<open>k\<close> lies on every path through \<open>r\<close>, so that
  \<open>match.group(k)\<close> is never \<open>None\<close>.
\<close>

primrec always_sets :: "nat \<Rightarrow> re \<Rightarrow> bool" where
  "always_sets k (Str w) = False"
| "always_sets k (Set items) = False"
| "always_sets k (Seq a b) = (always_sets k a \<or> always_sets k b)"
| "always_sets k (Alt a b) = (always_sets k a \<and> always_sets k b)"
| "always_sets k (Rep lo hi r) = (0 < lo \<and> always_sets k r)"
| "always_sets k (Grp j r) = (j = k \<or> always_sets k r)"
| "always_sets k Eol = False"

section \<open>Candidates in the order of the loops\<close>





text \<open>The surviving place candidates of all observations, in the order of the loops.\<close>

definition place_candidates :: "ustring list \<Rightarrow> (ustring \<times> ustring) list \<Rightarrow> ustring list" where
  "place_candidates label_patterns all_texts =
     concat (map (\<lambda>m. case clean_place_candidate m of Inl e \<Rightarrow> [] | Inr c \<Rightarrow> c)
       (place_matches label_patterns all_texts))"

section \<open>Confidence of an uncorroborated value\<close>

lemma entry_confidences_no_match:
  "\<forall>t \<in> set (fst d). py_upper (py_strip t) \<notin> set ws \<Longrightarrow> entry_confidences ws d = []"
  by (auto simp: entry_confidences_def in_set_enumerate_eq)

text \<open>
  C1 (as amended). The dynamic confidence is \<open>base_confidence * 0.5\<close> when the value is
  empty or the token-confidence table is empty. When both are non-empty and no OCR token
  of the table matches a token of the value, it is \<open>base_confidence\<close> itself.
\<close>

theorem dynamic_confidence_uncorroborated:
  "(v = [] \<or> tbl = [] \<longrightarrow> calculate_dynamic_confidence tbl v b = b * 0.5) \<and>
   (v \<noteq> [] \<and> tbl \<noteq> [] \<and> no_matching_token tbl v \<longrightarrow> calculate_dynamic_confidence tbl v b = b)"
proof -
  have "concat (map (\<lambda>(source_key, d). entry_confidences (py_split (py_upper v)) d) tbl) = []"
    if "no_matching_token tbl v"
    using that by (auto simp: no_matching_token_def intro!: entry_confidences_no_match)
  then show ?thesis
    by (simp add: calculate_dynamic_confidence_def Let_def del: concat_eq_Nil_conv)
qed

theorem dynamic_confidence_uncorroborated_witness:
  "calculate_dynamic_confidence [] (ustr ''ABC'') 0.8 = 0.4 \<and>
   calculate_dynamic_confidence [(ustr ''img'', ([ustr ''XYZ''], [90]))] (ustr ''ABC'') 0.8 = 0.8"
proof -
  have n: "no_matching_token [(ustr ''img'', ([ustr ''XYZ''], [90]))] (ustr ''ABC'')"
    by (simp add: no_matching_token_def ustr_def py_split_def py_upper_def py_strip_def
        is_space_def upper_char_def)
  have e: "ustr ''ABC'' \<noteq> []" by (simp add: ustr_def)
  show ?thesis
    using dynamic_confidence_uncorroborated [of "ustr ''ABC''" "[]" "0.8"]
      dynamic_confidence_uncorroborated
        [of "ustr ''ABC''" "[(ustr ''img'', ([ustr ''XYZ''], [90]))]" "0.8"] n e
    by simp
qed

text \<open>
  The table holds the one token \<open>XYZ\<close> (confidence 90), the value is \<open>ABC\<close>: nothing
  matches, and the confidence is the base 0.8, not 0.4.
\<close>

theorem dynamic_confidence_half_counterexample:
  "no_matching_token [(ustr ''img'', ([ustr ''XYZ''], [90]))] (ustr ''ABC'') \<and>
   calculate_dynamic_confidence [(ustr ''img'', ([ustr ''XYZ''], [90]))] (ustr ''ABC'') 0.8
     \<noteq> 0.8 * 0.5"
  by (simp add: no_matching_token_def calculate_dynamic_confidence_def entry_confidences_def
      ustr_def py_split_def py_upper_def py_strip_def is_space_def upper_char_def)

section \<open>No input at all\<close>

lemma smart_field_extraction_Nil: "smart_field_extraction tbl [] = Inr empty_record"
  by (simp add: smart_field_extraction_def and_then_def extract_national_id_def extract_dates_def
      extract_name_def extract_sex_def extract_place_of_birth_def extract_place_of_issue_def
      extract_place_def place_matches_def most_common_1_def counter_def extract_nationality_def)

lemma count_extracted_empty_record: "count_extracted empty_record important_fields = 0"
  by (simp add: count_extracted_def empty_record_def important_fields_def dict_get_def field_names_def)

lemma round2_zero: "round2 0 = 0"
  by (simp add: round2_def round_half_even_def)

text \<open>
  C9. With an empty image map \<open>extract\<close> raises nothing: it returns a record whose twelve
  fields are all \<open>None\<close> and whose \<open>extraction_score\<close> is 0, whatever the OCR passes, the
  MRZ decoder and the confidence table are.
\<close>

theorem extract_empty_image_map:
  "\<exists>d. extractor_extract multi_pass_extraction extract_mrz_data tbl [] = (Inr d, tbl) \<and>
       map (field d) field_names = map (\<lambda>k. Some PNone) field_names \<and>
       length field_names = 12 \<and>
       field d ''extraction_score'' = Some (PFloat 0)"
  by (simp add: extractor_extract_def smart_field_extraction_Nil and_then_def calculate_score_def
      count_extracted_empty_record round2_zero)
     (simp add: empty_record_def field_names_def)

section \<open>MRZ fusion\<close>


lemma merge_field_other:
  "key \<noteq> snd fm \<Longrightarrow>
   field (merge_field mrz d fm) key = field d key \<and>
   confidence_scores (merge_field mrz d fm) key = confidence_scores d key \<and>
   extraction_method (merge_field mrz d fm) key = extraction_method d key"
  by (cases fm)
     (simp add: merge_field_def set_field_def set_confidence_def set_method_def Let_def
       split: option.splits)

lemma foldl_merge_field_other:
  "key \<notin> snd ` set fms \<Longrightarrow>
   field (foldl (merge_field mrz) d fms) key = field d key \<and>
   confidence_scores (foldl (merge_field mrz) d fms) key = confidence_scores d key \<and>
   extraction_method (foldl (merge_field mrz) d fms) key = extraction_method d key"
  by (induction fms arbitrary: d) (simp_all add: merge_field_other)

text \<open>What the loop body does to its own key depends on the record at that key only.\<close>

lemma merge_field_local:
  assumes "field d key = field d' key" "confidence_scores d key = confidence_scores d' key"
    "extraction_method d key = extraction_method d' key"
  shows "field (merge_field mrz d (mf, key)) key = field (merge_field mrz d' (mf, key)) key \<and>
    confidence_scores (merge_field mrz d (mf, key)) key
      = confidence_scores (merge_field mrz d' (mf, key)) key \<and>
    extraction_method (merge_field mrz d (mf, key)) key
      = extraction_method (merge_field mrz d' (mf, key)) key"
  using assms
  by (simp add: merge_field_def set_field_def set_confidence_def set_method_def Let_def
      dict_get_def split: option.splits)

lemma foldl_merge_field_own:
  assumes "distinct (map snd fms)" "(mf, key) \<in> set fms"
  shows "field (foldl (merge_field mrz) d fms) key = field (merge_field mrz d (mf, key)) key \<and>
    confidence_scores (foldl (merge_field mrz) d fms) key
      = confidence_scores (merge_field mrz d (mf, key)) key \<and>
    extraction_method (foldl (merge_field mrz) d fms) key
      = extraction_method (merge_field mrz d (mf, key)) key"
  using assms
proof (induction fms arbitrary: d)
  case Nil
  then show ?case by simp
next
  case (Cons fm fms)
  show ?case
  proof (cases "fm = (mf, key)")
    case True
    with Cons.prems have "key \<notin> snd ` set fms" by auto
    with True show ?thesis by (simp add: foldl_merge_field_other)
  next
    case False
    with Cons.prems have in_rest: "(mf, key) \<in> set fms" and d: "distinct (map snd fms)"
      and ne: "key \<noteq> snd fm"
      by (auto simp: image_iff)
    from merge_field_other [OF ne, of mrz d] merge_field_local [of "merge_field mrz d fm" key d mrz mf]
    have "field (merge_field mrz (merge_field mrz d fm) (mf, key)) key
            = field (merge_field mrz d (mf, key)) key \<and>
          confidence_scores (merge_field mrz (merge_field mrz d fm) (mf, key)) key
            = confidence_scores (merge_field mrz d (mf, key)) key \<and>
          extraction_method (merge_field mrz (merge_field mrz d fm) (mf, key)) key
            = extraction_method (merge_field mrz d (mf, key)) key"
      by simp
    with Cons.IH [OF d in_rest, of "merge_field mrz d fm"] show ?thesis by simp
  qed
qed

lemma distinct_field_mapping: "distinct (map snd field_mapping)"
  by (simp add: field_mapping_def)

lemma mapped_field_not_added:
  "(mf, key) \<in> set field_mapping \<Longrightarrow>
   key \<noteq> ''mrz_text'' \<and> key \<noteq> ''mrz_confidence'' \<and> key \<noteq> ''mrz_extraction_method''"
  by (auto simp: field_mapping_def)

lemma enhance_at_mapped:
  assumes "(mf, key) \<in> set field_mapping"
  shows "field (enhance_extraction_with_mrz d mrz) key = field (merge_field mrz d (mf, key)) key \<and>
    confidence_scores (enhance_extraction_with_mrz d mrz) key
      = confidence_scores (merge_field mrz d (mf, key)) key \<and>
    extraction_method (enhance_extraction_with_mrz d mrz) key
      = extraction_method (merge_field mrz d (mf, key)) key"
  using foldl_merge_field_own [OF distinct_field_mapping assms, of mrz d]
    mapped_field_not_added [OF assms]
  by (simp add: enhance_extraction_with_mrz_def Let_def)

text \<open>
  C7. For a mapped field whose MRZ value is non-empty, fusion overrides the record's field
  exactly when that field is empty (absent, \<open>None\<close>, the empty string or zero) or the MRZ
  confidence exceeds the field's recorded confidence (0.0 when none is recorded). On
  override the field takes the MRZ value, its confidence the MRZ confidence
  (\<open>mrz_confidence\<close>, 0.8 when the key is absent) and its method the MRZ method tag
  (\<open>extraction_method\<close> of the MRZ record, \<open>'mrz'\<close> when the key is absent); otherwise
  the value, the confidence and the method stay as they were.
\<close>

theorem mrz_fusion_override:
  assumes "(mrz_field, extract_field) \<in> set field_mapping"
    and "mrz_fields mrz_data mrz_field = Some mrz_value" and "mrz_value \<noteq> []"
  shows "if (case field data extract_field of
               None \<Rightarrow> True | Some PNone \<Rightarrow> True | Some (PStr s) \<Rightarrow> s = [] | Some (PFloat x) \<Rightarrow> x = 0)
            \<or> (case confidence_scores data extract_field of None \<Rightarrow> 0 | Some c \<Rightarrow> c)
                < (case mrz_confidence mrz_data of None \<Rightarrow> 0.8 | Some c \<Rightarrow> c)
         then field (enhance_extraction_with_mrz data mrz_data) extract_field = Some (PStr mrz_value) \<and>
              confidence_scores (enhance_extraction_with_mrz data mrz_data) extract_field
                = Some (case mrz_confidence mrz_data of None \<Rightarrow> 0.8 | Some c \<Rightarrow> c) \<and>
              extraction_method (enhance_extraction_with_mrz data mrz_data) extract_field
                = Some (case mrz_extraction_method mrz_data of None \<Rightarrow> ustr ''mrz'' | Some m \<Rightarrow> m)
         else field (enhance_extraction_with_mrz data mrz_data) extract_field = field data extract_field \<and>
              confidence_scores (enhance_extraction_with_mrz data mrz_data) extract_field
                = confidence_scores data extract_field \<and>
              extraction_method (enhance_extraction_with_mrz data mrz_data) extract_field
                = extraction_method data extract_field"
proof -
  have t: "truthy (dict_get data extract_field) \<longleftrightarrow>
      \<not> (case field data extract_field of
           None \<Rightarrow> True | Some PNone \<Rightarrow> True | Some (PStr s) \<Rightarrow> s = [] | Some (PFloat x) \<Rightarrow> x = 0)"
    by (simp add: dict_get_def split: option.splits pyval.splits)
  show ?thesis
    using enhance_at_mapped [OF assms(1), of data mrz_data] assms(2,3)
    by (simp add: merge_field_def set_field_def set_confidence_def set_method_def Let_def t)
qed

text \<open>
  The MRZ record reads sex M with confidence 0.7 by \<open>fastmrz\<close>. A record without sex takes
  M, 0.7 and \<open>fastmrz\<close>; a record with sex F at confidence 0.9 keeps F, 0.9 and its missing
  method. An MRZ record without confidence and method keys writes 0.8 and \<open>mrz\<close> over a
  name recorded at 0.5.
\<close>

theorem mrz_fusion_override_witness:
  "field (enhance_extraction_with_mrz empty_record
       \<lparr>mrz_fields = [''sex'' \<mapsto> ustr ''M''], mrz_confidence = Some 0.7,
        mrz_extraction_method = Some (ustr ''fastmrz'')\<rparr>) ''sex'' = Some (PStr (ustr ''M'')) \<and>
   confidence_scores (enhance_extraction_with_mrz empty_record
       \<lparr>mrz_fields = [''sex'' \<mapsto> ustr ''M''], mrz_confidence = Some 0.7,
        mrz_extraction_method = Some (ustr ''fastmrz'')\<rparr>) ''sex'' = Some 0.7 \<and>
   extraction_method (enhance_extraction_with_mrz empty_record
       \<lparr>mrz_fields = [''sex'' \<mapsto> ustr ''M''], mrz_confidence = Some 0.7,
        mrz_extraction_method = Some (ustr ''fastmrz'')\<rparr>) ''sex'' = Some (ustr ''fastmrz'') \<and>
   field (enhance_extraction_with_mrz
       (set_confidence (set_field empty_record ''sex'' (ustr ''F'')) ''sex'' 0.9)
       \<lparr>mrz_fields = [''sex'' \<mapsto> ustr ''M''], mrz_confidence = Some 0.7,
        mrz_extraction_method = Some (ustr ''fastmrz'')\<rparr>) ''sex'' = Some (PStr (ustr ''F'')) \<and>
   confidence_scores (enhance_extraction_with_mrz
       (set_confidence (set_field empty_record ''sex'' (ustr ''F'')) ''sex'' 0.9)
       \<lparr>mrz_fields = [''sex'' \<mapsto> ustr ''M''], mrz_confidence = Some 0.7,
        mrz_extraction_method = Some (ustr ''fastmrz'')\<rparr>) ''sex'' = Some 0.9 \<and>
   extraction_method (enhance_extraction_with_mrz
       (set_confidence (set_field empty_record ''sex'' (ustr ''F'')) ''sex'' 0.9)
       \<lparr>mrz_fields = [''sex'' \<mapsto> ustr ''M''], mrz_confidence = Some 0.7,
        mrz_extraction_method = Some (ustr ''fastmrz'')\<rparr>) ''sex'' = None \<and>
   field (enhance_extraction_with_mrz
       (set_confidence (set_field empty_record ''full_name'' (ustr ''ALI HASSAN'')) ''full_name'' 0.5)
       \<lparr>mrz_fields = [''names'' \<mapsto> ustr ''ALI HASSAN MOHAMED''], mrz_confidence = None,
        mrz_extraction_method = None\<rparr>) ''full_name'' = Some (PStr (ustr ''ALI HASSAN MOHAMED'')) \<and>
   confidence_scores (enhance_extraction_with_mrz
       (set_confidence (set_field empty_record ''full_name'' (ustr ''ALI HASSAN'')) ''full_name'' 0.5)
       \<lparr>mrz_fields = [''names'' \<mapsto> ustr ''ALI HASSAN MOHAMED''], mrz_confidence = None,
        mrz_extraction_method = None\<rparr>) ''full_name'' = Some 0.8 \<and>
   extraction_method (enhance_extraction_with_mrz
       (set_confidence (set_field empty_record ''full_name'' (ustr ''ALI HASSAN'')) ''full_name'' 0.5)
       \<lparr>mrz_fields = [''names'' \<mapsto> ustr ''ALI HASSAN MOHAMED''], mrz_confidence = None,
        mrz_extraction_method = None\<rparr>) ''full_name'' = Some (ustr ''mrz'')"
proof -
  let ?mrz = "\<lparr>mrz_fields = [''sex'' \<mapsto> ustr ''M''], mrz_confidence = Some 0.7,
    mrz_extraction_method = Some (ustr ''fastmrz'')\<rparr>"
  let ?mrz2 = "\<lparr>mrz_fields = [''names'' \<mapsto> ustr ''ALI HASSAN MOHAMED''], mrz_confidence = None,
    mrz_extraction_method = None\<rparr>"
  have m: "(''sex'', ''sex'') \<in> set field_mapping" by (simp add: field_mapping_def)
  have v: "mrz_fields ?mrz ''sex'' = Some (ustr ''M'')" by simp
  have n: "ustr ''M'' \<noteq> []" by (simp add: ustr_def)
  have m2: "(''names'', ''full_name'') \<in> set field_mapping" by (simp add: field_mapping_def)
  have v2: "mrz_fields ?mrz2 ''names'' = Some (ustr ''ALI HASSAN MOHAMED'')" by simp
  have n2: "ustr ''ALI HASSAN MOHAMED'' \<noteq> []" by (simp add: ustr_def)
  show ?thesis
    using mrz_fusion_override [OF m v n, of empty_record]
      mrz_fusion_override [OF m v n,
        of "set_confidence (set_field empty_record ''sex'' (ustr ''F'')) ''sex'' 0.9"]
      mrz_fusion_override [OF m2 v2 n2,
        of "set_confidence (set_field empty_record ''full_name'' (ustr ''ALI HASSAN'')) ''full_name'' 0.5"]
    by (simp add: empty_record_def field_names_def set_field_def set_confidence_def ustr_def)
qed

lemma mapped_fields: 
  "snd ` set field_mapping =
     {''passport_number'', ''nationality'', ''date_of_birth'', ''date_of_expiry'', ''sex'',
      ''full_name'', ''country_code''}"
  by (simp add: field_mapping_def)

lemma enhance_not_mapped:
  assumes "key \<notin> snd ` set field_mapping"
  shows "(key \<notin> {''mrz_text'', ''mrz_confidence'', ''mrz_extraction_method''} \<longrightarrow>
            field (enhance_extraction_with_mrz d mrz) key = field d key) \<and>
    confidence_scores (enhance_extraction_with_mrz d mrz) key = confidence_scores d key \<and>
    extraction_method (enhance_extraction_with_mrz d mrz) key = extraction_method d key"
  using foldl_merge_field_other [OF assms, of mrz d]
  by (simp add: enhance_extraction_with_mrz_def Let_def)

lemma merge_field_keeps_non_null:
  "dict_get d key \<noteq> PNone \<Longrightarrow> dict_get (merge_field mrz d (mf, key)) key \<noteq> PNone"
  by (simp add: merge_field_def set_field_def set_confidence_def set_method_def Let_def
      dict_get_def split: option.splits)

text \<open>
  C10. Fusion turns no field of the record from non-null to null. Outside the seven mapped
  fields it changes only the three keys it adds (\<open>mrz_text\<close>, \<open>mrz_confidence\<close>,
  \<open>mrz_extraction_method\<close>), and outside the seven mapped fields it leaves every entry
  of \<open>confidence_scores\<close> and of \<open>extraction_method\<close> as it was.
\<close>

theorem mrz_fusion_frame:
  "(key \<notin> {''mrz_text'', ''mrz_confidence'', ''mrz_extraction_method''} \<and> dict_get data key \<noteq> PNone
      \<longrightarrow> dict_get (enhance_extraction_with_mrz data mrz_data) key \<noteq> PNone) \<and>
   (key \<notin> {''passport_number'', ''nationality'', ''date_of_birth'', ''date_of_expiry'', ''sex'',
             ''full_name'', ''country_code''} \<longrightarrow>
      (key \<notin> {''mrz_text'', ''mrz_confidence'', ''mrz_extraction_method''} \<longrightarrow>
         field (enhance_extraction_with_mrz data mrz_data) key = field data key) \<and>
      confidence_scores (enhance_extraction_with_mrz data mrz_data) key = confidence_scores data key \<and>
      extraction_method (enhance_extraction_with_mrz data mrz_data) key = extraction_method data key)"
proof (cases "key \<in> snd ` set field_mapping")
  case True
  then obtain mf where m: "(mf, key) \<in> set field_mapping" by auto
  have "dict_get (enhance_extraction_with_mrz data mrz_data) key
          = dict_get (merge_field mrz_data data (mf, key)) key"
    using enhance_at_mapped [OF m, of data mrz_data] by (simp add: dict_get_def)
  with True show ?thesis
    using merge_field_keeps_non_null [of data key mrz_data mf] by (simp add: mapped_fields)
next
  case False
  with enhance_not_mapped [OF False, of data mrz_data] show ?thesis
    by (simp add: mapped_fields dict_get_def)
qed

theorem mrz_fusion_frame_witness:
  "dict_get (enhance_extraction_with_mrz
       (set_confidence (set_field (set_field empty_record ''sex'' (ustr ''F''))
          ''place_of_issue'' (ustr ''KHARTOUM'')) ''place_of_issue'' 0.4)
       \<lparr>mrz_fields = [''sex'' \<mapsto> ustr ''M''], mrz_confidence = Some 0.7,
        mrz_extraction_method = Some (ustr ''fastmrz'')\<rparr>) ''sex'' \<noteq> PNone \<and>
   field (enhance_extraction_with_mrz
       (set_confidence (set_field (set_field empty_record ''sex'' (ustr ''F''))
          ''place_of_issue'' (ustr ''KHARTOUM'')) ''place_of_issue'' 0.4)
       \<lparr>mrz_fields = [''sex'' \<mapsto> ustr ''M''], mrz_confidence = Some 0.7,
        mrz_extraction_method = Some (ustr ''fastmrz'')\<rparr>) ''place_of_issue''
     = Some (PStr (ustr ''KHARTOUM'')) \<and>
   confidence_scores (enhance_extraction_with_mrz
       (set_confidence (set_field (set_field empty_record ''sex'' (ustr ''F''))
          ''place_of_issue'' (ustr ''KHARTOUM'')) ''place_of_issue'' 0.4)
       \<lparr>mrz_fields = [''sex'' \<mapsto> ustr ''M''], mrz_confidence = Some 0.7,
        mrz_extraction_method = Some (ustr ''fastmrz'')\<rparr>) ''place_of_issue'' = Some 0.4"
proof -
  let ?d = "set_confidence (set_field (set_field empty_record ''sex'' (ustr ''F''))
    ''place_of_issue'' (ustr ''KHARTOUM'')) ''place_of_issue'' 0.4"
  let ?mrz = "\<lparr>mrz_fields = [''sex'' \<mapsto> ustr ''M''], mrz_confidence = Some 0.7,
    mrz_extraction_method = Some (ustr ''fastmrz'')\<rparr>"
  show ?thesis
    using mrz_fusion_frame [of "''sex''" ?d ?mrz] mrz_fusion_frame [of "''place_of_issue''" ?d ?mrz]
    by (simp add: dict_get_def set_field_def set_confidence_def)
qed
section \<open>Positional assignment of dates\<close>

lemma all_dates_Nil: "all_dates [] = []"
  by (simp add: all_dates_def date_patterns_def re_findall_def re_finditer_def)

lemma valid_dates_Nil: "valid_dates [] = []"
  by (simp add: valid_dates_def all_dates_Nil)

lemma extract_dates_assign: "extract_dates tbl data text = assign_dates tbl data (valid_dates text)"
  by (simp add: extract_dates_def valid_dates_Nil assign_dates_def)

lemma tl_facts:
  assumes "2 \<le> length vds"
  shows "tl vds ! 0 = vds ! 1 \<and> last (tl vds) = last vds \<and> (1 < length (tl vds)) = (3 \<le> length vds)"
proof -
  from assms obtain a b rest where "vds = a # b # rest"
    by (cases vds; cases "tl vds") auto
  then show ?thesis by (cases rest) auto
qed

text \<open>Text before and after a separator: the matches of the one, then those of the other.\<close>


lemma str_prefix_extend:
  "list_all (\<lambda>a. \<not> lit_eq ic a c) w \<Longrightarrow>
   str_prefix ic w (s @ c # b) = map_option (\<lambda>s'. s' @ c # b) (str_prefix ic w s)"
  by (induction ic w s rule: str_prefix.induct) auto

lemma rep_extend:
  assumes "\<And>s g. f (s @ z, g) = map (\<lambda>st. (fst st @ z, snd st)) (f (s, g))"
  shows "rep f lo n (s @ z, g) = map (\<lambda>st. (fst st @ z, snd st)) (rep f lo n (s, g))"
proof (induction n arbitrary: lo s g)
  case 0
  then show ?case by simp
next
  case (Suc n)
  have "concat (map (rep f (lo - 1) n) (map (\<lambda>st. (fst st @ z, snd st)) (f (s, g)))) =
      map (\<lambda>st. (fst st @ z, snd st)) (concat (map (rep f (lo - 1) n) (f (s, g))))"
    by (induction "f (s, g)") (auto simp: Suc.IH map_concat comp_def split_def)
  then show ?case by (simp add: assms)
qed

lemma ms_extend:
  "bounded r \<Longrightarrow> rejects ic c r \<Longrightarrow>
   ms r ic (s @ c # b, g) = map (\<lambda>st. (fst st @ c # b, snd st)) (ms r ic (s, g))"
proof (induction r arbitrary: s g)
  case (Str w)
  then show ?case by (simp add: str_prefix_extend split: option.splits)
next
  case (Set items)
  then show ?case by (cases s) simp_all
next
  case (Seq a b')
  have "concat (map (ms b' ic) (map (\<lambda>st. (fst st @ c # b, snd st)) sts)) =
      map (\<lambda>st. (fst st @ c # b, snd st)) (concat (map (ms b' ic) sts))" for sts
    using Seq.IH(2) Seq.prems by (induction sts) (auto simp: split_def)
  with Seq.IH(1) Seq.prems show ?case by simp
next
  case (Alt a b')
  then show ?case by simp
next
  case (Rep lo hi r)
  then obtain h where h: "hi = Some h" by auto
  from Rep have "\<And>s g. ms r ic (s @ c # b, g) = map (\<lambda>st. (fst st @ c # b, snd st)) (ms r ic (s, g))"
    by simp
  from rep_extend [of "ms r ic" "c # b", OF this] h show ?case by simp
next
  case (Grp k r)
  then show ?case by (simp add: comp_def)
next
  case Eol
  then show ?case by simp
qed

lemma match_here_extend:
  "bounded r \<Longrightarrow> rejects ic c r \<Longrightarrow> match_here r ic (s @ c # b) = match_here r ic s"
  by (simp add: match_here_def ms_extend split: list.splits)

lemma match_here_length: "match_here r ic s = Some m \<Longrightarrow> length (fst m) \<le> length s"
  by (auto simp: match_here_def split: list.splits)

lemma finditer_from_extend:
  assumes "\<And>s. match_here r ic (s @ c # b) = match_here r ic s" "match_here r ic [] = None"
  shows "finditer_from r ic (a @ c # b) skip =
    finditer_from r ic a skip @ finditer_from r ic b (skip - Suc (length a))"
proof (induction a arbitrary: skip)
  case Nil
  from assms(1) [of "[]"] assms(2) have "match_here r ic (c # b) = None" by simp
  then show ?case by simp
next
  case (Cons x a)
  show ?case
  proof (cases "0 < skip")
    case True
    with Cons.IH [of "skip - 1"] show ?thesis by simp
  next
    case False
    have mh: "match_here r ic (x # a @ c # b) = match_here r ic (x # a)"
      using assms(1) [of "x # a"] by simp
    show ?thesis
    proof (cases "match_here r ic (x # a)")
      case None
      with False mh Cons.IH [of 0] show ?thesis by simp
    next
      case (Some m)
      from match_here_length [OF Some] have "length (fst m) - 1 - Suc (length a) = 0" by simp
      with Some False mh Cons.IH [of "length (fst m) - 1"] show ?thesis by simp
    qed
  qed
qed

lemma date_patterns_not_empty: "list_all (\<lambda>p. match_here p False [] = None) date_patterns"
  by code_simp

lemma date_pattern_local:
  assumes "\<not> is_digit c" "c \<noteq> 46" "p \<in> set date_patterns"
  shows "bounded p \<and> rejects False c p \<and> match_here p False [] = None"
proof -
  from assms have "bounded p \<and> rejects False c p"
    by (simp add: date_patterns_def seqs_def times_def digit_def lit_def ustr_def
        set_match_def lit_eq_def)
  with date_patterns_not_empty assms(3) show ?thesis by (simp add: list_all_iff)
qed

lemma valid_dates_append:
  assumes "\<not> is_digit c" "c \<noteq> 46"
  shows "valid_dates (a @ c # b) = valid_dates a @ valid_dates b"
proof -
  have "re_finditer p False (a @ c # b) = re_finditer p False a @ re_finditer p False b"
    if "p \<in> set date_patterns" for p
    using date_pattern_local [OF assms that]
      finditer_from_extend [of p False c b a 0] match_here_extend [of p False c _ b]
    by (simp add: re_finditer_def)
  then have "all_dates (a @ c # b) = all_dates a @ all_dates b"
    by (simp add: all_dates_def date_patterns_def re_findall_def)
  then show ?thesis by (simp add: valid_dates_def)
qed



lemma extract_dates_assigned:
  "field (extract_dates tbl data text) ''date_of_birth'' =
     (if 1 \<le> length (valid_dates text) then Some (PStr (valid_dates text ! 0))
      else field data ''date_of_birth'') \<and>
   field (extract_dates tbl data text) ''date_of_issue'' =
     (if 2 \<le> length (valid_dates text) then Some (PStr (valid_dates text ! 1))
      else field data ''date_of_issue'') \<and>
   field (extract_dates tbl data text) ''date_of_expiry'' =
     (if 3 \<le> length (valid_dates text) then Some (PStr (last (valid_dates text)))
      else field data ''date_of_expiry'')"
proof (cases "2 \<le> length (valid_dates text)")
  case True
  then show ?thesis
    unfolding extract_dates_assign
    by (auto simp: assign_dates_def Let_def set_field_def set_confidence_def tl_facts)
next
  case False
  then show ?thesis
    unfolding extract_dates_assign
    by (simp add: assign_dates_def Let_def set_field_def set_confidence_def)
qed

text \<open>
  C3 (as amended). The valid dates are taken in the order in which they occur in the text,
  with repetitions kept: the valid dates of the text before a separator (any character
  that is neither a digit nor a dot) come before those of the text after it, whatever the
  dates are. They are assigned by position: the first to \<open>date_of_birth\<close>, the second to
  \<open>date_of_issue\<close>, and the last to \<open>date_of_expiry\<close> as soon as the list has three
  entries; a field without such an entry keeps its value. For the text
  \<open>3.3.2002 1.1.2000 2.2.2001\<close> the birth date is 03-03-2002, the latest of the three.
\<close>

theorem extract_dates_positional:
  "(\<not> is_digit c \<and> c \<noteq> 46 \<longrightarrow> valid_dates (a @ c # b) = valid_dates a @ valid_dates b) \<and>
   field (extract_dates tbl data text) ''date_of_birth'' =
     (if 1 \<le> length (valid_dates text) then Some (PStr (valid_dates text ! 0))
      else field data ''date_of_birth'') \<and>
   field (extract_dates tbl data text) ''date_of_issue'' =
     (if 2 \<le> length (valid_dates text) then Some (PStr (valid_dates text ! 1))
      else field data ''date_of_issue'') \<and>
   field (extract_dates tbl data text) ''date_of_expiry'' =
     (if 3 \<le> length (valid_dates text) then Some (PStr (last (valid_dates text)))
      else field data ''date_of_expiry'') \<and>
   valid_dates (ustr ''3.3.2002 1.1.2000 2.2.2001'')
     = [ustr ''03-03-2002'', ustr ''01-01-2000'', ustr ''02-02-2001''] \<and>
   field (extract_dates [] empty_record (ustr ''3.3.2002 1.1.2000 2.2.2001'')) ''date_of_birth''
     = Some (PStr (ustr ''03-03-2002'')) \<and>
   field (extract_dates [] empty_record (ustr ''3.3.2002 1.1.2000 2.2.2001'')) ''date_of_issue''
     = Some (PStr (ustr ''01-01-2000'')) \<and>
   field (extract_dates [] empty_record (ustr ''3.3.2002 1.1.2000 2.2.2001'')) ''date_of_expiry''
     = Some (PStr (ustr ''02-02-2001''))"
proof -
  have order: "\<not> is_digit c \<and> c \<noteq> 46 \<longrightarrow> valid_dates (a @ c # b) = valid_dates a @ valid_dates b"
    using valid_dates_append by blast
  have ex: "valid_dates (ustr ''3.3.2002 1.1.2000 2.2.2001'')
      = [ustr ''03-03-2002'', ustr ''01-01-2000'', ustr ''02-02-2001'']"
    by code_simp
  have ex_fields:
    "field (extract_dates [] empty_record (ustr ''3.3.2002 1.1.2000 2.2.2001'')) ''date_of_birth''
       = Some (PStr (ustr ''03-03-2002'')) \<and>
     field (extract_dates [] empty_record (ustr ''3.3.2002 1.1.2000 2.2.2001'')) ''date_of_issue''
       = Some (PStr (ustr ''01-01-2000'')) \<and>
     field (extract_dates [] empty_record (ustr ''3.3.2002 1.1.2000 2.2.2001'')) ''date_of_expiry''
       = Some (PStr (ustr ''02-02-2001''))"
    by code_simp
  from order extract_dates_assigned [of tbl data "text"] ex ex_fields show ?thesis by blast
qed

text \<open>
  Two texts joined by a space: the date of the first text, though the later one, stays
  first.
\<close>

theorem extract_dates_positional_witness:
  "valid_dates (ustr ''3.3.2002'' @ 32 # ustr ''1.1.2000'') = [ustr ''03-03-2002'', ustr ''01-01-2000'']"
proof -
  have sep: "\<not> is_digit 32 \<and> (32::nat) \<noteq> 46" by (simp add: is_digit_def)
  have a: "valid_dates (ustr ''3.3.2002'') = [ustr ''03-03-2002'']" by code_simp
  have b: "valid_dates (ustr ''1.1.2000'') = [ustr ''01-01-2000'']" by code_simp
  from extract_dates_positional [of 32 "ustr ''3.3.2002''" "ustr ''1.1.2000''"] sep a b
  show ?thesis by simp
qed

text \<open>
  The text \<open>1.1.2000 2.2.2001 2.2.2001\<close> holds two distinct valid dates, one of them
  twice: \<open>date_of_expiry\<close>, null before, is set to \<open>02-02-2001\<close>.
\<close>

theorem extract_dates_distinct_counterexample:
  "length (remdups (valid_dates (ustr ''1.1.2000 2.2.2001 2.2.2001''))) = 2 \<and>
   field empty_record ''date_of_expiry'' = Some PNone \<and>
   field (extract_dates [] empty_record (ustr ''1.1.2000 2.2.2001 2.2.2001'')) ''date_of_expiry''
     = Some (PStr (ustr ''02-02-2001''))"
  by code_simp

section \<open>What each extractor records\<close>


lemma extract_passport_number_records:
  "extract_passport_number tbl d ts = Inr d' \<Longrightarrow>
   d' = d \<or> populated_with tbl 0.95 ''passport_number'' d' \<and> has_method ''passport_number'' d'"
proof (induction ts)
  case Nil
  then show ?case by simp
next
  case (Cons obs ts)
  obtain source_name body where obs: "obs = (source_name, body)" by (cases obs)
  show ?case
  proof (cases "first_passport_candidate (passport_candidates body)")
    case (Inl e)
    with Cons.prems obs show ?thesis by simp
  next
    case (Inr c)
    with Cons obs show ?thesis
      by (cases c)
         (auto simp: populated_with_def has_method_def set_field_def set_confidence_def
           set_method_def)
  qed
qed

lemma extract_national_id_records:
  "extract_national_id tbl d text = Inr d' \<Longrightarrow>
   d' = d \<or> populated_with tbl 0.9 ''national_id'' d' \<and> extraction_method d' = extraction_method d"
  by (auto simp: extract_national_id_def populated_with_def set_field_def set_confidence_def
      split: if_splits sum.splits option.splits)

lemma extract_name_records:
  "extract_name tbl d ts = d \<or>
   populated_with tbl 0.85 ''full_name'' (extract_name tbl d ts) \<and>
   has_method ''full_name'' (extract_name tbl d ts)"
  by (simp add: extract_name_def populated_with_def has_method_def set_field_def
      set_confidence_def set_method_def Let_def split: list.splits)

lemma extract_sex_records:
  "extract_sex tbl d text = d \<or>
   populated_with tbl 0.95 ''sex'' (extract_sex tbl d text) \<and> has_method ''sex'' (extract_sex tbl d text)"
  by (simp add: extract_sex_def populated_with_def has_method_def set_field_def
      set_confidence_def set_method_def split: option.splits)

lemma extract_place_of_birth_records:
  "extract_place_of_birth tbl d ts = Inr d' \<Longrightarrow>
   d' = d \<or> populated_with tbl 0.85 ''place_of_birth'' d' \<and> has_method ''place_of_birth'' d'"
  by (auto simp: extract_place_of_birth_def populated_with_def has_method_def set_field_def
      set_confidence_def set_method_def split: sum.splits option.splits)

lemma extract_place_of_issue_records:
  "extract_place_of_issue tbl d ts = Inr d' \<Longrightarrow>
   d' = d \<or> populated_with tbl 0.80 ''place_of_issue'' d' \<and> has_method ''place_of_issue'' d'"
  by (auto simp: extract_place_of_issue_def populated_with_def has_method_def set_field_def
      set_confidence_def set_method_def split: sum.splits option.splits)

lemma assign_dates_method: "extraction_method (assign_dates tbl d vds) = extraction_method d"
  by (simp add: assign_dates_def Let_def set_field_def set_confidence_def)

lemma assign_dates_records:
  "(field (assign_dates tbl d vds) ''date_of_birth'' = field d ''date_of_birth'' \<and>
    confidence_scores (assign_dates tbl d vds) ''date_of_birth'' = confidence_scores d ''date_of_birth''
    \<or> populated_with tbl 0.85 ''date_of_birth'' (assign_dates tbl d vds)) \<and>
   (field (assign_dates tbl d vds) ''date_of_issue'' = field d ''date_of_issue'' \<and>
    confidence_scores (assign_dates tbl d vds) ''date_of_issue'' = confidence_scores d ''date_of_issue''
    \<or> populated_with tbl 0.8 ''date_of_issue'' (assign_dates tbl d vds)) \<and>
   (field (assign_dates tbl d vds) ''date_of_expiry'' = field d ''date_of_expiry'' \<and>
    confidence_scores (assign_dates tbl d vds) ''date_of_expiry'' = confidence_scores d ''date_of_expiry''
    \<or> populated_with tbl 0.85 ''date_of_expiry'' (assign_dates tbl d vds))"
  by (simp add: assign_dates_def Let_def set_field_def set_confidence_def populated_with_def)

lemma extract_nationality_records:
  "extract_nationality d text = d \<or>
   field (extract_nationality d text) ''nationality'' = Some (PStr (ustr ''SUDANESE'')) \<and>
   confidence_scores (extract_nationality d text) ''nationality'' = Some 0.98 \<and>
   confidence_scores (extract_nationality d text) ''country_code'' = confidence_scores d ''country_code'' \<and>
   confidence_scores (extract_nationality d text) ''passport_type'' = confidence_scores d ''passport_type'' \<and>
   extraction_method (extract_nationality d text) = extraction_method d"
  by (simp add: extract_nationality_def Let_def set_field_def set_confidence_def)


text \<open>
  What the extractors write when they change the record. Passport number, name, sex,
  place of birth and place of issue: the value, its dynamic confidence and a method tag.
  National ID and the three dates: the value and its dynamic confidence, and nothing in
  \<open>extraction_method\<close>. Nationality: the value with the constant confidence 0.98,
  nothing for \<open>country_code\<close> and \<open>passport_type\<close>, and nothing in
  \<open>extraction_method\<close>.
\<close>

lemma extractors_record:
  "(case extract_passport_number tbl d all_texts of
      Inl e \<Rightarrow> True
    | Inr d' \<Rightarrow> d' = d \<or>
        populated_with tbl 0.95 ''passport_number'' d' \<and> has_method ''passport_number'' d') \<and>
   (extract_name tbl d all_texts = d \<or>
      populated_with tbl 0.85 ''full_name'' (extract_name tbl d all_texts) \<and>
      has_method ''full_name'' (extract_name tbl d all_texts)) \<and>
   (extract_sex tbl d combined_text = d \<or>
      populated_with tbl 0.95 ''sex'' (extract_sex tbl d combined_text) \<and>
      has_method ''sex'' (extract_sex tbl d combined_text)) \<and>
   (case extract_place_of_birth tbl d all_texts of
      Inl e \<Rightarrow> True
    | Inr d' \<Rightarrow> d' = d \<or>
        populated_with tbl 0.85 ''place_of_birth'' d' \<and> has_method ''place_of_birth'' d') \<and>
   (case extract_place_of_issue tbl d all_texts of
      Inl e \<Rightarrow> True
    | Inr d' \<Rightarrow> d' = d \<or>
        populated_with tbl 0.80 ''place_of_issue'' d' \<and> has_method ''place_of_issue'' d') \<and>
   (case extract_national_id tbl d combined_text of
      Inl e \<Rightarrow> True
    | Inr d' \<Rightarrow> d' = d \<or>
        populated_with tbl 0.9 ''national_id'' d' \<and> extraction_method d' = extraction_method d) \<and>
   extraction_method (extract_dates tbl d combined_text) = extraction_method d \<and>
   (field (extract_dates tbl d combined_text) ''date_of_birth'' = field d ''date_of_birth'' \<and>
    confidence_scores (extract_dates tbl d combined_text) ''date_of_birth''
      = confidence_scores d ''date_of_birth''
    \<or> populated_with tbl 0.85 ''date_of_birth'' (extract_dates tbl d combined_text)) \<and>
   (field (extract_dates tbl d combined_text) ''date_of_issue'' = field d ''date_of_issue'' \<and>
    confidence_scores (extract_dates tbl d combined_text) ''date_of_issue''
      = confidence_scores d ''date_of_issue''
    \<or> populated_with tbl 0.8 ''date_of_issue'' (extract_dates tbl d combined_text)) \<and>
   (field (extract_dates tbl d combined_text) ''date_of_expiry'' = field d ''date_of_expiry'' \<and>
    confidence_scores (extract_dates tbl d combined_text) ''date_of_expiry''
      = confidence_scores d ''date_of_expiry''
    \<or> populated_with tbl 0.85 ''date_of_expiry'' (extract_dates tbl d combined_text)) \<and>
   (extract_nationality d combined_text = d \<or>
      field (extract_nationality d combined_text) ''nationality'' = Some (PStr (ustr ''SUDANESE'')) \<and>
      confidence_scores (extract_nationality d combined_text) ''nationality'' = Some 0.98 \<and>
      confidence_scores (extract_nationality d combined_text) ''country_code''
        = confidence_scores d ''country_code'' \<and>
      confidence_scores (extract_nationality d combined_text) ''passport_type''
        = confidence_scores d ''passport_type'' \<and>
      extraction_method (extract_nationality d combined_text) = extraction_method d)"
proof -
  have p: "case extract_passport_number tbl d all_texts of
      Inl e \<Rightarrow> True
    | Inr d' \<Rightarrow> d' = d \<or>
        populated_with tbl 0.95 ''passport_number'' d' \<and> has_method ''passport_number'' d'"
    using extract_passport_number_records [of tbl d all_texts] by (simp split: sum.splits)
  have b: "case extract_place_of_birth tbl d all_texts of
      Inl e \<Rightarrow> True
    | Inr d' \<Rightarrow> d' = d \<or>
        populated_with tbl 0.85 ''place_of_birth'' d' \<and> has_method ''place_of_birth'' d'"
    using extract_place_of_birth_records [of tbl d all_texts] by (simp split: sum.splits)
  have i: "case extract_place_of_issue tbl d all_texts of
      Inl e \<Rightarrow> True
    | Inr d' \<Rightarrow> d' = d \<or>
        populated_with tbl 0.80 ''place_of_issue'' d' \<and> has_method ''place_of_issue'' d'"
    using extract_place_of_issue_records [of tbl d all_texts] by (simp split: sum.splits)
  have n: "case extract_national_id tbl d combined_text of
      Inl e \<Rightarrow> True
    | Inr d' \<Rightarrow> d' = d \<or>
        populated_with tbl 0.9 ''national_id'' d' \<and> extraction_method d' = extraction_method d"
    using extract_national_id_records [of tbl d combined_text] by (simp split: sum.splits)
  show ?thesis
    unfolding extract_dates_assign
    using p b i n extract_name_records [of tbl d all_texts] extract_sex_records [of tbl d combined_text]
      assign_dates_method [of tbl d "valid_dates combined_text"]
      assign_dates_records [of tbl d "valid_dates combined_text"]
      extract_nationality_records [of d combined_text]
    by blast
qed

text \<open>
  C8. The claim asks that every extractor that populates its field records a dynamic
  confidence and a method tag for it, as the passport-number, name, sex and place
  extractors do. On the code the national-id, date and nationality extractors do not:
  for the one observation \<open>SDN 242-9135-0472 1.1.2000\<close> the pipeline populates
  \<open>national_id\<close>, \<open>date_of_birth\<close> and \<open>nationality\<close> and records no method tag for
  any of them, and it populates \<open>country_code\<close> and \<open>passport_type\<close> with neither a
  confidence nor a method tag.
\<close>

theorem method_tag_missing:
  "case smart_field_extraction []
          [(ustr ''original_standard'', ustr ''SDN 242-9135-0472 1.1.2000'')] of
     Inl e \<Rightarrow> False
   | Inr d \<Rightarrow>
       field d ''national_id'' = Some (PStr (ustr ''242-9135-0472'')) \<and>
       extraction_method d ''national_id'' = None \<and>
       field d ''date_of_birth'' = Some (PStr (ustr ''01-01-2000'')) \<and>
       extraction_method d ''date_of_birth'' = None \<and>
       field d ''nationality'' = Some (PStr (ustr ''SUDANESE'')) \<and>
       extraction_method d ''nationality'' = None \<and>
       field d ''country_code'' = Some (PStr (ustr ''SDN'')) \<and>
       extraction_method d ''country_code'' = None \<and>
       confidence_scores d ''country_code'' = None \<and>
       field d ''passport_type'' = Some (PStr (ustr ''PC'')) \<and>
       extraction_method d ''passport_type'' = None \<and>
       confidence_scores d ''passport_type'' = None"
  by code_simp

section \<open>Formatting and parsing a date\<close>

text \<open>
  C2. The claim asks that \<open>parse_date_string\<close> returns the triple that was formatted.
  On the code it raises instead: the first format matches the formatted string, and the
  call of the undefined \<open>validate_date\<close> raises AttributeError. Evaluated here at
  15-06-1985 and at the two ends of the valid range.
\<close>

theorem parse_date_string_raises:
  "format_date 15 6 1985 = ustr ''15-06-1985'' \<and>
   parse_date_string (format_date 15 6 1985) = Inl AttributeError \<and>
   parse_date_string (format_date 1 1 1900) = Inl AttributeError \<and>
   parse_date_string (format_date 31 12 2100) = Inl AttributeError"
  by code_simp

section \<open>\<open>Counter\<close> and \<open>most_common(1)\<close>\<close>


lemma counter_add_map:
  assumes "distinct ks"
  shows "counter_add (map (\<lambda>y. (y, f y)) ks) x =
    (if x \<in> set ks then map (\<lambda>y. (y, (f(x := Suc (f x))) y)) ks
     else map (\<lambda>y. (y, (f(x := 1)) y)) (ks @ [x]))"
  using assms by (induction ks) auto

lemma map_count_other:
  "map (\<lambda>y. (y, count_list (x # xs) y)) (filter (\<lambda>y. x \<noteq> y \<and> P y) zs) =
   map (\<lambda>y. (y, count_list xs y)) (filter (\<lambda>y. x \<noteq> y \<and> P y) zs)"
  by (induction zs) auto

lemma filter_known:
  "x \<in> set ks \<Longrightarrow>
   filter (\<lambda>y. y \<notin> set ks) zs = filter (\<lambda>y. x \<noteq> y \<and> y \<notin> set ks) zs"
  by (induction zs) auto

lemma foldl_counter_add:
  assumes "distinct ks"
  shows "foldl counter_add (map (\<lambda>y. (y, f y)) ks) xs =
    map (\<lambda>y. (y, f y + count_list xs y)) ks @
    map (\<lambda>y. (y, count_list xs y)) (filter (\<lambda>y. y \<notin> set ks) (first_seen xs))"
  using assms
proof (induction xs arbitrary: ks f)
  case Nil
  then show ?case by simp
next
  case (Cons x xs)
  note other = map_count_other [of x xs "\<lambda>y. y \<notin> set ks" "first_seen xs"]
  show ?case
  proof (cases "x \<in> set ks")
    case True
    have A: "filter (\<lambda>y. y \<notin> set ks) (first_seen (x # xs))
        = filter (\<lambda>y. x \<noteq> y \<and> y \<notin> set ks) (first_seen xs)"
      using True by (simp add: removeAll_filter_not_eq)
    have B: "filter (\<lambda>y. y \<notin> set ks) (first_seen xs)
        = filter (\<lambda>y. x \<noteq> y \<and> y \<notin> set ks) (first_seen xs)"
      by (rule filter_known [OF True])
    have C: "map (\<lambda>y. (y, (f(x := Suc (f x))) y + count_list xs y)) ks
        = map (\<lambda>y. (y, f y + count_list (x # xs) y)) ks"
      by simp
    have "foldl counter_add (map (\<lambda>y. (y, f y)) ks) (x # xs) =
        foldl counter_add (map (\<lambda>y. (y, (f(x := Suc (f x))) y)) ks) xs"
      using True Cons.prems by (simp add: counter_add_map)
    also have "\<dots> = map (\<lambda>y. (y, (f(x := Suc (f x))) y + count_list xs y)) ks @
        map (\<lambda>y. (y, count_list xs y)) (filter (\<lambda>y. y \<notin> set ks) (first_seen xs))"
      by (rule Cons.IH [OF Cons.prems])
    also have "\<dots> = map (\<lambda>y. (y, f y + count_list (x # xs) y)) ks @
        map (\<lambda>y. (y, count_list (x # xs) y)) (filter (\<lambda>y. y \<notin> set ks) (first_seen (x # xs)))"
      unfolding A B C other ..
    finally show ?thesis .
  next
    case False
    let ?f = "f(x := 1)"
    have d: "distinct (ks @ [x])" using False Cons.prems by simp
    have A: "filter (\<lambda>y. y \<notin> set ks) (first_seen (x # xs))
        = x # filter (\<lambda>y. x \<noteq> y \<and> y \<notin> set ks) (first_seen xs)"
      using False by (simp add: removeAll_filter_not_eq)
    have B: "filter (\<lambda>y. y \<notin> set (ks @ [x])) (first_seen xs)
        = filter (\<lambda>y. x \<noteq> y \<and> y \<notin> set ks) (first_seen xs)"
      by (rule filter_cong) auto
    have C: "map (\<lambda>y. (y, ?f y + count_list xs y)) (ks @ [x])
        = map (\<lambda>y. (y, f y + count_list (x # xs) y)) ks @ [(x, count_list (x # xs) x)]"
      using False by auto
    have "foldl counter_add (map (\<lambda>y. (y, f y)) ks) (x # xs) =
        foldl counter_add (map (\<lambda>y. (y, ?f y)) (ks @ [x])) xs"
      using False Cons.prems by (simp add: counter_add_map)
    also have "\<dots> = map (\<lambda>y. (y, ?f y + count_list xs y)) (ks @ [x]) @
        map (\<lambda>y. (y, count_list xs y)) (filter (\<lambda>y. y \<notin> set (ks @ [x])) (first_seen xs))"
      by (rule Cons.IH [OF d])
    also have "\<dots> = map (\<lambda>y. (y, f y + count_list (x # xs) y)) ks @
        map (\<lambda>y. (y, count_list (x # xs) y)) (filter (\<lambda>y. y \<notin> set ks) (first_seen (x # xs)))"
      unfolding A B C by (simp del: count_list.simps add: other)
    finally show ?thesis .
  qed
qed

lemma counter_first_seen: "counter xs = map (\<lambda>y. (y, count_list xs y)) (first_seen xs)"
  using foldl_counter_add [of "[]" "\<lambda>_. 0" xs] by (simp add: counter_def)



lemma find_py_max_by:
  "find (\<lambda>y. \<forall>z \<in> set (b # xs). k z \<le> k y) (b # xs) = Some (py_max_by k b xs)"
proof (induction xs arbitrary: b)
  case Nil
  then show ?case by (simp add: py_max_by_def)
next
  case (Cons x xs)
  show ?case
  proof (cases "k b < k x")
    case True
    have "find (\<lambda>y. \<forall>z \<in> set (b # x # xs). k z \<le> k y) (b # x # xs)
        = find (\<lambda>y. \<forall>z \<in> set (b # x # xs). k z \<le> k y) (x # xs)"
      using True by auto
    also have "\<dots> = find (\<lambda>y. \<forall>z \<in> set (x # xs). k z \<le> k y) (x # xs)"
      using True by (intro find_cong) auto
    also have "\<dots> = Some (py_max_by k x xs)" by (rule Cons.IH)
    finally show ?thesis using True by (simp add: py_max_by_def)
  next
    case False
    show ?thesis
    proof (cases "\<forall>z \<in> set (b # xs). k z \<le> k b")
      case True
      with False Cons.IH [of b] show ?thesis by (simp add: py_max_by_def)
    next
      case nb: False
      then have nx: "\<not> (\<forall>z \<in> set (b # x # xs). k z \<le> k x)"
        using False by (auto simp: not_less)
      have "find (\<lambda>y. \<forall>z \<in> set (b # x # xs). k z \<le> k y) (b # x # xs)
          = find (\<lambda>y. \<forall>z \<in> set (b # x # xs). k z \<le> k y) xs"
        using nb nx by auto
      also have "\<dots> = find (\<lambda>y. \<forall>z \<in> set (b # xs). k z \<le> k y) xs"
        using False by (intro find_cong) (auto simp: not_less intro: order_trans)
      also have "\<dots> = find (\<lambda>y. \<forall>z \<in> set (b # xs). k z \<le> k y) (b # xs)"
        using nb by auto
      also have "\<dots> = Some (py_max_by k b xs)" by (rule Cons.IH)
      finally show ?thesis using False by (simp add: py_max_by_def)
    qed
  qed
qed

lemma find_removeAll: "\<not> P x \<Longrightarrow> find P (removeAll x ys) = find P ys"
  by (induction ys) auto

lemma find_first_seen: "find P (first_seen xs) = find P xs"
  by (induction xs) (auto simp: find_removeAll)

lemma set_first_seen: "set (first_seen xs) = set xs"
  by (induction xs) auto

lemma find_map_fun: "find Q (map g ks) = map_option g (find (\<lambda>x. Q (g x)) ks)"
  by (induction ks) auto

text \<open>\<open>most_common(1)\<close> is the majority vote with the first-seen tie-break.\<close>

lemma most_common_1_majority:
  "most_common_1 xs = map_option (\<lambda>x. (x, count_list xs x)) (majority_vote xs)"
proof (cases "counter xs")
  case Nil
  then have "xs = []" by (cases xs) (simp_all add: counter_first_seen)
  then show ?thesis by (simp add: most_common_1_def majority_vote_def counter_def)
next
  case (Cons i items)
  have "most_common_1 xs = find (\<lambda>y. \<forall>z \<in> set (counter xs). snd z \<le> snd y) (counter xs)"
    using find_py_max_by [where k = snd and b = i and xs = items] Cons by (simp add: most_common_1_def)
  also have "\<dots> = map_option (\<lambda>x. (x, count_list xs x))
      (find (\<lambda>x. \<forall>y \<in> set xs. count_list xs y \<le> count_list xs x) (first_seen xs))"
    by (simp add: counter_first_seen find_map_fun set_first_seen)
  finally show ?thesis
    by (simp add: find_first_seen majority_vote_def list_all_iff)
qed

section \<open>Groups of a match\<close>

text \<open>Repetition keeps an invariant of its body, and establishes what the body establishes.\<close>


lemma rep_keeps:
  assumes "\<And>st st'. st' \<in> set (f st) \<Longrightarrow> Q st \<Longrightarrow> Q st'"
  shows "st' \<in> set (rep f lo n st) \<Longrightarrow> Q st \<Longrightarrow> Q st'"
proof (induction n arbitrary: lo st)
  case 0
  then show ?case by (simp split: if_splits)
next
  case (Suc n)
  from Suc.prems(1) consider
    (more) st1 where "st1 \<in> set (f st)" "st' \<in> set (rep f (lo - 1) n st1)" | (stop) "st' = st"
    by (auto split: if_splits)
  then show ?case
  proof cases
    case more
    with assms Suc.prems(2) Suc.IH show ?thesis by blast
  next
    case stop
    with Suc.prems(2) show ?thesis by simp
  qed
qed

lemma rep_sets:
  assumes "\<And>st st'. st' \<in> set (f st) \<Longrightarrow> Q st'" and "0 < lo"
  shows "st' \<in> set (rep f lo n st) \<Longrightarrow> Q st'"
proof (cases n)
  case 0
  with assms(2) show "st' \<in> set (rep f lo n st) \<Longrightarrow> Q st'" by simp
next
  case (Suc n')
  assume "st' \<in> set (rep f lo n st)"
  with Suc assms(2) obtain st1 where 1: "st1 \<in> set (f st)" and 2: "st' \<in> set (rep f (lo - 1) n' st1)"
    by auto
  from assms(1) [OF 1] have "Q st1" .
  with rep_keeps [of f Q st' "lo - 1" n' st1] assms(1) 2 show "Q st'" by blast
qed

lemma ms_group_set:
  "st' \<in> set (ms r ic st) \<Longrightarrow> snd st k \<noteq> None \<or> always_sets k r \<Longrightarrow> snd st' k \<noteq> None"
proof (induction r arbitrary: st st' ic)
  case (Str w)
  then show ?case by (auto split: option.splits)
next
  case (Set items)
  then show ?case by (auto split: list.splits if_splits)
next
  case (Seq a b)
  from Seq.prems(1) obtain st1 where 1: "st1 \<in> set (ms a ic st)" and 2: "st' \<in> set (ms b ic st1)"
    by auto
  show ?case
  proof (cases "snd st k \<noteq> None \<or> always_sets k a")
    case True
    with Seq.IH(1) [OF 1] have "snd st1 k \<noteq> None" by simp
    with Seq.IH(2) [OF 2] show ?thesis by simp
  next
    case False
    with Seq.prems(2) have "always_sets k b" by simp
    with Seq.IH(2) [OF 2] show ?thesis by simp
  qed
next
  case (Alt a b)
  have "st' \<in> set (ms a ic st) \<or> st' \<in> set (ms b ic st)"
    using Alt.prems(1) by simp
  moreover have "snd st k \<noteq> None \<or> always_sets k a" "snd st k \<noteq> None \<or> always_sets k b"
    using Alt.prems(2) by auto
  ultimately show ?case using Alt.IH by blast
next
  case (Rep lo hi r)
  let ?n = "case hi of None \<Rightarrow> length (fst st) | Some h \<Rightarrow> h"
  from Rep.prems(1) have in_rep: "st' \<in> set (rep (ms r ic) lo ?n st)" by simp
  show ?case
  proof (cases "snd st k \<noteq> None")
    case True
    show ?thesis
      by (rule rep_keeps [where Q = "\<lambda>s. snd s k \<noteq> None", OF _ in_rep True])
         (use Rep.IH in blast)
  next
    case False
    with Rep.prems(2) have a: "always_sets k r" and lo: "0 < lo" by simp_all
    show ?thesis
      by (rule rep_sets [where Q = "\<lambda>s. snd s k \<noteq> None", OF _ lo in_rep])
         (use Rep.IH a in blast)
  qed
next
  case (Grp j r)
  from Grp.prems(1) obtain st1 where 1: "st1 \<in> set (ms r ic st)"
    and st': "snd st' = (snd st1)(j \<mapsto> take (length (fst st) - length (fst st1)) (fst st))"
    by auto
  show ?case
  proof (cases "j = k")
    case True
    with st' show ?thesis by simp
  next
    case False
    with Grp.prems(2) have "snd st k \<noteq> None \<or> always_sets k r" by simp
    from Grp.IH [OF 1 this] False st' show ?thesis by simp
  qed
next
  case Eol
  then show ?case by (auto split: if_splits)
qed

lemma match_here_state:
  "match_here r ic s = Some m \<Longrightarrow>
   \<exists>st' \<in> set (ms r ic (s, Map.empty)). m = (take (length s - length (fst st')) s, snd st')"
  by (auto simp: match_here_def split: list.splits)

lemma match_here_group_set:
  assumes "match_here r ic s = Some m" "always_sets k r"
  shows "snd m k \<noteq> None"
proof -
  from match_here_state [OF assms(1)] obtain st'
    where "st' \<in> set (ms r ic (s, Map.empty))" "snd m = snd st'" by auto
  with ms_group_set [of st' r ic "(s, Map.empty)" k] assms(2) show ?thesis by simp
qed

lemma finditer_from_match:
  "m \<in> set (finditer_from r ic s skip) \<Longrightarrow> \<exists>s'. match_here r ic s' = Some m"
  by (induction r ic s skip rule: finditer_from.induct) (auto split: if_splits option.splits)

lemma finditer_group_set:
  "m \<in> set (re_finditer r ic s) \<Longrightarrow> always_sets k r \<Longrightarrow> snd m k \<noteq> None"
  using finditer_from_match [of m r ic s 0] match_here_group_set [of r ic _ m k]
  by (auto simp: re_finditer_def)

section \<open>Places: majority vote\<close>


lemma place_patterns_group: "p \<in> set (place_patterns labels) \<Longrightarrow> always_sets 2 p"
  by (auto simp: place_patterns_def seqs_def)

lemma place_matches_group: "m \<in> set (place_matches labels all_texts) \<Longrightarrow> snd m 2 \<noteq> None"
proof -
  assume "m \<in> set (place_matches labels all_texts)"
  then obtain p body where "p \<in> set (place_patterns labels)" "m \<in> set (re_finditer p True body)"
    by (auto simp: place_matches_def)
  with place_patterns_group finditer_group_set show ?thesis by blast
qed

lemma collect_places_total:
  "\<forall>m \<in> set matches. snd m 2 \<noteq> None \<Longrightarrow>
   collect_places matches =
     Inr (concat (map (\<lambda>m. case clean_place_candidate m of Inl e \<Rightarrow> [] | Inr c \<Rightarrow> c) matches))"
proof (induction matches)
  case Nil
  then show ?case by simp
next
  case (Cons m matches)
  then obtain g where "snd m 2 = Some g" by auto
  then have "\<exists>c. clean_place_candidate m = Inr c"
    by (simp add: clean_place_candidate_def Let_def)
  with Cons show ?case by auto
qed

text \<open>
  C6. The place extractor returns the majority vote over the surviving candidates of all
  observations: the most frequent candidate, and among equally frequent ones the one seen
  first. With the candidates KHARTOUM, KHARTOUM, RIYADH from three observations the
  result is KHARTOUM.
\<close>

theorem extract_place_majority:
  "extract_place all_texts label_patterns =
     Inr (map_option (\<lambda>v. (v, ustr ''regex_candidate_selection''))
           (majority_vote (place_candidates label_patterns all_texts))) \<and>
   extract_place
     [(ustr ''original_standard'', ustr ''Place of Issue: KHARTOUM''),
      (ustr ''original_eng_lang'', ustr ''Place of Issue KHARTOUM''),
      (ustr ''enhanced_standard'', ustr ''Authority: RIYADH'')] poi_labels =
     Inr (Some (ustr ''KHARTOUM'', ustr ''regex_candidate_selection''))"
proof
  have "collect_places (place_matches label_patterns all_texts) =
      Inr (place_candidates label_patterns all_texts)"
    unfolding place_candidates_def
    by (rule collect_places_total) (auto dest: place_matches_group)
  then show "extract_place all_texts label_patterns =
     Inr (map_option (\<lambda>v. (v, ustr ''regex_candidate_selection''))
           (majority_vote (place_candidates label_patterns all_texts)))"
    by (simp add: extract_place_def most_common_1_majority split: option.splits)
  show "extract_place
     [(ustr ''original_standard'', ustr ''Place of Issue: KHARTOUM''),
      (ustr ''original_eng_lang'', ustr ''Place of Issue KHARTOUM''),
      (ustr ''enhanced_standard'', ustr ''Authority: RIYADH'')] poi_labels =
     Inr (Some (ustr ''KHARTOUM'', ustr ''regex_candidate_selection''))"
    by code_simp
qed

text \<open>Frequency decides before order: RIYADH is seen first, KHARTOUM twice.\<close>

lemma extract_place_frequency_before_order:
  "extract_place
     [(ustr ''original_standard'', ustr ''Authority: RIYADH''),
      (ustr ''original_eng_lang'', ustr ''Place of Issue KHARTOUM''),
      (ustr ''enhanced_standard'', ustr ''Place of Issue: KHARTOUM'')] poi_labels =
     Inr (Some (ustr ''KHARTOUM'', ustr ''regex_candidate_selection''))"
  by code_simp

lemma place_candidates_example:
  "place_candidates poi_labels
     [(ustr ''original_standard'', ustr ''Authority: RIYADH''),
      (ustr ''original_eng_lang'', ustr ''Place of Issue KHARTOUM''),
      (ustr ''enhanced_standard'', ustr ''Place of Issue: KHARTOUM'')] =
     [ustr ''RIYADH'', ustr ''KHARTOUM'', ustr ''KHARTOUM'']"
  by code_simp

section \<open>Passport number: first match wins\<close>

















end
